theory Spec2Isabelle
  imports Main "HOL-Library.Product_Lexorder" "HOL-Library.Sublist"
begin

section \<open>split\_data\_by\_month.py: data model\<close>

text \<open>
  The script reads two CSV files with pandas, converts their \<open>execution_date\<close> column
  to datetimes, creates \<open>public/monthly\<close>, and writes, for every year-month of the
  first table, one file per table holding that table's rows of the month.

  The file system is a map from paths to nodes. Only what the script can observe is
  kept: whether a path is a regular file (with its bytes), a directory, or absent.
  Permissions and disk space are outside the model, and so are the three progress
  lines the script prints.
\<close>

datatype node = File string | Dir

type_synonym fs = "string \<rightharpoonup> node"

text \<open>A pandas Timestamp, by its calendar fields; \<open>tod\<close> is the time of day in seconds.\<close>

record timestamp =
  year :: nat
  month :: nat
  day :: nat
  tod :: nat

text \<open>A monthly Period is a (year, month) pair, ordered lexicographically.\<close>

type_synonym period = "nat \<times> nat"

text \<open>
  A cell of a frame in memory: a value as \<open>read_csv\<close> produced it (of a type \<open>'c\<close> the
  script never looks into), or, in a datetime64 column, a Timestamp or NaT.
\<close>

datatype 'c cell = Raw 'c | Timestamp timestamp | NaT

text \<open>
  A DataFrame is its header and its rows in order; a row maps column names to values.
  A row that has no entry for a column holds a missing value there.
\<close>

type_synonym 'v row = "(string \<times> 'v) list"

record 'v frame =
  columns :: "string list"
  rows :: "'v row list"

datatype 'c error =
    FileNotFoundError string
  | IsADirectoryError string
  | FileExistsError string
  | ParserError string
  | KeyError string
  | DateParseError nat 'c
  | ValueError string

text \<open>
  pandas itself is not part of the repository. What the script needs of it is taken as
  a parameter: the CSV reader applied to the bytes of a file (\<open>None\<close> when it rejects
  them), the date parser applied to one value, and the CSV writer applied to a frame.
\<close>

datatype parsed = Unparseable | Null | Date timestamp

record 'c pandas =
  parse_csv :: "string \<Rightarrow> 'c frame option"
  parse_date :: "'c \<Rightarrow> parsed"
  format_csv :: "'c cell frame \<Rightarrow> string"

section \<open>The library calls\<close>

text \<open>\<open>pd.read_csv(path)\<close>: open the file, then parse its bytes.\<close>

definition read_csv :: "'c pandas \<Rightarrow> fs \<Rightarrow> string \<Rightarrow> 'c error + 'c frame" where
  "read_csv L fs path =
     (case fs path of
        None \<Rightarrow> Inl (FileNotFoundError path)
      | Some Dir \<Rightarrow> Inl (IsADirectoryError path)
      | Some (File bytes) \<Rightarrow>
          (case parse_csv L bytes of
             None \<Rightarrow> Inl (ParserError path)
           | Some df \<Rightarrow> Inr df))"

text \<open>\<open>df[col]\<close>: the column's values in row order, \<open>KeyError\<close> when the header lacks it.\<close>

definition getitem :: "'v frame \<Rightarrow> string \<Rightarrow> 'c error + 'v option list" where
  "getitem df col =
     (if col \<in> set (columns df) then Inr (map (\<lambda>r. map_of r col) (rows df))
      else Inl (KeyError col))"

text \<open>
  Modelled from the spec: \<open>pd.to_datetime\<close>, which belongs to pandas and is not in the
  repository. Each value of the column is parsed in row order; the first value that
  cannot be parsed fails with a \<open>DateParseError\<close> carrying its row index and the raw
  value, and nothing of the column is returned. The specification is silent on missing
  values; pandas does not raise on them, it returns NaT, and so does this function.
\<close>

fun to_datetime_from :: "'c pandas \<Rightarrow> nat \<Rightarrow> 'c option list \<Rightarrow> 'c error + 'c cell list" where
  "to_datetime_from L i [] = Inr []"
| "to_datetime_from L i (None # vs) =
     (case to_datetime_from L (Suc i) vs of
        Inl e \<Rightarrow> Inl e
      | Inr ds \<Rightarrow> Inr (NaT # ds))"
| "to_datetime_from L i (Some v # vs) =
     (case parse_date L v of
        Unparseable \<Rightarrow> Inl (DateParseError i v)
      | Null \<Rightarrow>
          (case to_datetime_from L (Suc i) vs of
             Inl e \<Rightarrow> Inl e
           | Inr ds \<Rightarrow> Inr (NaT # ds))
      | Date t \<Rightarrow>
          (case to_datetime_from L (Suc i) vs of
             Inl e \<Rightarrow> Inl e
           | Inr ds \<Rightarrow> Inr (Timestamp t # ds)))"

definition to_datetime :: "'c pandas \<Rightarrow> 'c option list \<Rightarrow> 'c error + 'c cell list" where
  "to_datetime L vs = to_datetime_from L 0 vs"

text \<open>
  \<open>df[col] = values\<close>: the column is replaced in every row, the other cells stay.
  The frame's other columns keep the values \<open>read_csv\<close> gave them.
\<close>

fun set_cell :: "string \<Rightarrow> 'v \<Rightarrow> 'v row \<Rightarrow> 'v row" where
  "set_cell col v [] = [(col, v)]"
| "set_cell col v ((k, x) # r) = (if k = col then (col, v) # r else (k, x) # set_cell col v r)"

definition keep_raw :: "'c row \<Rightarrow> 'c cell row" where
  "keep_raw r = map (\<lambda>(k, x). (k, Raw x)) r"

definition setitem :: "'c frame \<Rightarrow> string \<Rightarrow> 'c cell list \<Rightarrow> 'c cell frame" where
  "setitem df col vs =
     \<lparr>columns = columns df,
      rows = map (\<lambda>(r, v). set_cell col v (keep_raw r)) (zip (rows df) vs)\<rparr>"

text \<open>Lines 10 and 11, for one table.\<close>

definition convert_dates :: "'c pandas \<Rightarrow> 'c frame \<Rightarrow> 'c error + 'c cell frame" where
  "convert_dates L df =
     (case getitem df ''execution_date'' of
        Inl e \<Rightarrow> Inl e
      | Inr vs \<Rightarrow>
          (case to_datetime L vs of
             Inl e \<Rightarrow> Inl e
           | Inr ds \<Rightarrow> Inr (setitem df ''execution_date'' ds)))"

text \<open>
  \<open>Path.mkdir(exist_ok=True)\<close>: nothing happens when the directory exists, a regular
  file at the path is a \<open>FileExistsError\<close>. The parent \<open>public\<close> exists, since the two
  reads before succeeded.
\<close>

definition mkdir :: "fs \<Rightarrow> string \<Rightarrow> 'c error + fs" where
  "mkdir fs path =
     (case fs path of
        None \<Rightarrow> Inr (fs(path \<mapsto> Dir))
      | Some Dir \<Rightarrow> Inr fs
      | Some (File bytes) \<Rightarrow> Inl (FileExistsError path))"

text \<open>
  \<open>series.dt.to_period('M')\<close> on one value: the Timestamp truncated to its year and
  month, NaT for NaT. After lines 10 and 11 the column holds no other kind of cell
  (lemma \<open>convert_dates_cells\<close> below).
\<close>

definition to_period :: "timestamp \<Rightarrow> period" where
  "to_period t = (year t, month t)"

definition row_period :: "'c cell row \<Rightarrow> period option" where
  "row_period r =
     (case map_of r ''execution_date'' of
        Some (Timestamp t) \<Rightarrow> Some (to_period t)
      | _ \<Rightarrow> None)"

text \<open>\<open>unique()\<close>: the distinct values in order of first appearance.\<close>

definition unique :: "'a list \<Rightarrow> 'a list" where
  "unique xs = rev (remdups (rev xs))"

text \<open>
  \<open>sorted(...)\<close> on Periods and NaT. Python sorts with \<open><\<close> alone, and every comparison
  with NaT is false. On Periods alone the result is the ascending order; with NaT in
  the list the order depends on the sorting algorithm, here insertion from the left.
\<close>

fun py_lt :: "period option \<Rightarrow> period option \<Rightarrow> bool" where
  "py_lt (Some p) (Some q) = (p < q)"
| "py_lt _ _ = False"

fun py_insert :: "period option \<Rightarrow> period option list \<Rightarrow> period option list" where
  "py_insert x [] = [x]"
| "py_insert x (y # ys) = (if py_lt x y then x # y # ys else y # py_insert x ys)"

definition py_sorted :: "period option list \<Rightarrow> period option list" where
  "py_sorted xs = foldl (\<lambda>acc x. py_insert x acc) [] xs"

text \<open>Decimal digits of a natural number, for \<open>%Y\<close> and \<open>%m\<close>.\<close>

definition digit :: "nat \<Rightarrow> char" where
  "digit d = char_of (48 + d)"

fun dec :: "nat \<Rightarrow> string" where
  "dec n = (if n < 10 then [digit n] else dec (n div 10) @ [digit (n mod 10)])"

declare dec.simps [simp del]

definition two_digits :: "nat \<Rightarrow> string" where
  "two_digits m = (if m < 10 then ''0'' @ dec m else dec m)"

text \<open>\<open>period.strftime('%Y-%m')\<close>: the year, a dash, the month on two digits.\<close>

definition strftime :: "period \<Rightarrow> string" where
  "strftime p = dec (fst p) @ ''-'' @ two_digits (snd p)"

text \<open>\<open>df[df['execution_date'].dt.to_period('M') == period]\<close>: the rows of the month, in order.\<close>

definition select_month :: "'c cell frame \<Rightarrow> period \<Rightarrow> 'c cell frame" where
  "select_month df p = df\<lparr>rows := filter (\<lambda>r. row_period r = Some p) (rows df)\<rparr>"

text \<open>
  \<open>df.to_csv(path, index=False)\<close>: the file is opened for writing, which replaces
  whatever regular file was there and fails on a directory.
\<close>

definition to_csv :: "'c pandas \<Rightarrow> fs \<Rightarrow> string \<Rightarrow> 'c cell frame \<Rightarrow> 'c error + fs" where
  "to_csv L fs path df =
     (case fs path of
        Some Dir \<Rightarrow> Inl (IsADirectoryError path)
      | _ \<Rightarrow> Inr (fs(path \<mapsto> File (format_csv L df))))"

section \<open>The script\<close>

definition box_plot_csv :: string where
  "box_plot_csv = ''public/box_plot_stats.csv''"

definition org_data_csv :: string where
  "org_data_csv = ''public/org_daily_executions.csv''"

definition monthly_dir :: string where
  "monthly_dir = ''public/monthly''"

definition box_plot_path :: "period \<Rightarrow> string" where
  "box_plot_path p = ''public/monthly/box_plot_'' @ strftime p @ ''.csv''"

definition org_data_path :: "period \<Rightarrow> string" where
  "org_data_path p = ''public/monthly/org_data_'' @ strftime p @ ''.csv''"

text \<open>
  Lines 22 to 33: the loop over the sorted periods. A failure returns the error with
  the file system as it is at that moment. \<open>strftime\<close> on NaT is a \<open>ValueError\<close>.
\<close>

fun monthly_loop ::
  "'c pandas \<Rightarrow> 'c cell frame \<Rightarrow> 'c cell frame \<Rightarrow> period option list \<Rightarrow> fs \<Rightarrow> ('c error \<times> fs) + fs"
where
  "monthly_loop L box_plot_df org_data_df [] fs = Inr fs"
| "monthly_loop L box_plot_df org_data_df (None # ps) fs = Inl (ValueError ''strftime'', fs)"
| "monthly_loop L box_plot_df org_data_df (Some p # ps) fs =
     (let month_box = select_month box_plot_df p;
          month_org = select_month org_data_df p
      in case to_csv L fs (box_plot_path p) month_box of
           Inl e \<Rightarrow> Inl (e, fs)
         | Inr fs1 \<Rightarrow>
             (case to_csv L fs1 (org_data_path p) month_org of
                Inl e \<Rightarrow> Inl (e, fs1)
              | Inr fs2 \<Rightarrow> monthly_loop L box_plot_df org_data_df ps fs2))"

text \<open>Lines 6 to 11: both tables loaded and their dates converted.\<close>

definition load_tables :: "'c pandas \<Rightarrow> fs \<Rightarrow> 'c error + ('c cell frame \<times> 'c cell frame)" where
  "load_tables L fs =
     (case read_csv L fs box_plot_csv of
        Inl e \<Rightarrow> Inl e
      | Inr box_plot_raw \<Rightarrow>
     (case read_csv L fs org_data_csv of
        Inl e \<Rightarrow> Inl e
      | Inr org_data_raw \<Rightarrow>
     (case convert_dates L box_plot_raw of
        Inl e \<Rightarrow> Inl e
      | Inr box_plot_df \<Rightarrow>
     (case convert_dates L org_data_raw of
        Inl e \<Rightarrow> Inl e
      | Inr org_data_df \<Rightarrow> Inr (box_plot_df, org_data_df)))))"

text \<open>Line 18: the year-months of the first table.\<close>

definition box_plot_months :: "'c cell frame \<Rightarrow> period option list" where
  "box_plot_months box_plot_df = unique (map row_period (rows box_plot_df))"

text \<open>The whole run, from the file system before to the file system after.\<close>

definition split_data_by_month :: "'c pandas \<Rightarrow> fs \<Rightarrow> ('c error \<times> fs) + fs" where
  "split_data_by_month L fs =
     (case load_tables L fs of
        Inl e \<Rightarrow> Inl (e, fs)
      | Inr (box_plot_df, org_data_df) \<Rightarrow>
          (case mkdir fs monthly_dir of
             Inl e \<Rightarrow> Inl (e, fs)
           | Inr fs1 \<Rightarrow>
               monthly_loop L box_plot_df org_data_df
                 (py_sorted (box_plot_months box_plot_df)) fs1))"

text \<open>
  The cell that \<open>to_datetime\<close> puts in place of one value, once the whole column has
  parsed: it depends on the parsed date alone.
\<close>

definition date_cell :: "'c pandas \<Rightarrow> 'c option \<Rightarrow> 'c cell" where
  "date_cell L x =
     (case x of
        None \<Rightarrow> NaT
      | Some v \<Rightarrow> (case parse_date L v of Date t \<Rightarrow> Timestamp t | _ \<Rightarrow> NaT))"


section \<open>A small pandas, for running the script on concrete files\<close>

text \<open>
  An executable instance of the three library functions, for evaluating the script on
  concrete files. It reads comma-separated text without quoting. An empty field is a
  missing value. A column whose fields are all unsigned integers becomes an integer
  column, as pandas infers \<open>int64\<close>; every other column keeps its text. Dates are
  written \<open>Y-M-D\<close>, with an optional \<open>H:M:S\<close> after a space; an integer is a count of
  nanoseconds since 1970-01-01 (only the first day is covered). Timestamps are written
  back as dates alone when every one in the frame is at midnight, as pandas does.
\<close>

datatype scalar = Number nat | Text string

definition newline :: char where
  "newline = CHR 0x0A"

fun split_on :: "char \<Rightarrow> string \<Rightarrow> string list" where
  "split_on c [] = [[]]"
| "split_on c (x # xs) =
     (if x = c then [] # split_on c xs
      else (case split_on c xs of [] \<Rightarrow> [[x]] | w # ws \<Rightarrow> (x # w) # ws))"

fun join :: "string \<Rightarrow> string list \<Rightarrow> string" where
  "join sep [] = []"
| "join sep [x] = x"
| "join sep (x # y # ys) = x @ sep @ join sep (y # ys)"

definition undigit :: "char \<Rightarrow> nat option" where
  "undigit c = (let n = of_char c in if (48::nat) \<le> n \<and> n \<le> 57 then Some (n - 48) else None)"

fun undec_from :: "nat \<Rightarrow> string \<Rightarrow> nat option" where
  "undec_from acc [] = Some acc"
| "undec_from acc (c # cs) =
     (case undigit c of None \<Rightarrow> None | Some d \<Rightarrow> undec_from (10 * acc + d) cs)"

definition undec :: "string \<Rightarrow> nat option" where
  "undec s = (if s = [] then None else undec_from 0 s)"

definition parse_ymd :: "string \<Rightarrow> (nat \<times> nat \<times> nat) option" where
  "parse_ymd s =
     (case map undec (split_on CHR ''-'' s) of
        [Some y, Some m, Some d] \<Rightarrow>
          if 1 \<le> m \<and> m \<le> 12 \<and> 1 \<le> d \<and> d \<le> 31 then Some (y, m, d) else None
      | _ \<Rightarrow> None)"

definition parse_hms :: "string \<Rightarrow> nat option" where
  "parse_hms s =
     (case map undec (split_on CHR '':'' s) of
        [Some h, Some m, Some sec] \<Rightarrow>
          if h < 24 \<and> m < 60 \<and> sec < 60 then Some (3600 * h + 60 * m + sec) else None
      | _ \<Rightarrow> None)"

definition parse_text_date :: "string \<Rightarrow> parsed" where
  "parse_text_date s =
     (case split_on CHR '' '' s of
        [d] \<Rightarrow>
          (case parse_ymd d of
             Some (y, m, dd) \<Rightarrow> Date \<lparr>year = y, month = m, day = dd, tod = 0\<rparr>
           | None \<Rightarrow> Unparseable)
      | [d, t] \<Rightarrow>
          (case (parse_ymd d, parse_hms t) of
             (Some (y, m, dd), Some n) \<Rightarrow> Date \<lparr>year = y, month = m, day = dd, tod = n\<rparr>
           | _ \<Rightarrow> Unparseable)
      | _ \<Rightarrow> Unparseable)"

fun mini_parse_date :: "scalar \<Rightarrow> parsed" where
  "mini_parse_date (Text s) = parse_text_date s"
| "mini_parse_date (Number n) =
     (if n div 1000000000 < 86400
      then Date \<lparr>year = 1970, month = 1, day = 1, tod = n div 1000000000\<rparr>
      else Unparseable)"

definition is_int_column :: "string row list \<Rightarrow> string \<Rightarrow> bool" where
  "is_int_column rs c =
     list_all (\<lambda>r. case map_of r c of None \<Rightarrow> False | Some v \<Rightarrow> undec v \<noteq> None) rs"

definition infer_types :: "string list \<Rightarrow> string row \<Rightarrow> scalar row" where
  "infer_types ints r =
     map (\<lambda>(k, v). (k, case undec v of
                          Some n \<Rightarrow> if k \<in> set ints then Number n else Text v
                        | None \<Rightarrow> Text v)) r"

definition mini_parse_csv :: "string \<Rightarrow> scalar frame option" where
  "mini_parse_csv text =
     (case filter (\<lambda>l. l \<noteq> []) (split_on newline text) of
        [] \<Rightarrow> None
      | h # ls \<Rightarrow>
          (let cols = split_on CHR '','' h;
               recs = map (split_on CHR '','') ls;
               rs = map (\<lambda>f. filter (\<lambda>(k, v). v \<noteq> []) (zip cols f)) recs;
               ints = filter (is_int_column rs) cols
           in if list_ex (\<lambda>f. length cols < length f) recs then None
              else Some \<lparr>columns = cols, rows = map (infer_types ints) rs\<rparr>))"

definition format_date :: "timestamp \<Rightarrow> string" where
  "format_date t = dec (year t) @ ''-'' @ two_digits (month t) @ ''-'' @ two_digits (day t)"

definition format_time :: "nat \<Rightarrow> string" where
  "format_time n =
     two_digits (n div 3600) @ '':'' @ two_digits (n div 60 mod 60) @ '':'' @ two_digits (n mod 60)"

fun is_midnight :: "'c cell \<Rightarrow> bool" where
  "is_midnight (Timestamp t) = (tod t = 0)"
| "is_midnight _ = True"

fun format_cell :: "bool \<Rightarrow> scalar cell option \<Rightarrow> string" where
  "format_cell date_only None = []"
| "format_cell date_only (Some (Raw (Text s))) = s"
| "format_cell date_only (Some (Raw (Number n))) = dec n"
| "format_cell date_only (Some NaT) = []"
| "format_cell date_only (Some (Timestamp t)) =
     (if date_only then format_date t else format_date t @ '' '' @ format_time (tod t))"

definition mini_format_csv :: "scalar cell frame \<Rightarrow> string" where
  "mini_format_csv df =
     (let date_only = list_all (\<lambda>r. list_all (\<lambda>(k, c). is_midnight c) r) (rows df)
      in concat (map (\<lambda>l. l @ [newline])
           (join '','' (columns df) #
            map (\<lambda>r. join '','' (map (\<lambda>c. format_cell date_only (map_of r c)) (columns df)))
              (rows df))))"

definition mini :: "scalar pandas" where
  "mini = \<lparr>parse_csv = mini_parse_csv, parse_date = mini_parse_date, format_csv = mini_format_csv\<rparr>"

subsection \<open>The scenario of the specification\<close>

definition scenario_fs :: fs where
  "scenario_fs =
     [''public'' \<mapsto> Dir,
      ''public/box_plot_stats.csv'' \<mapsto>
        File ''execution_date,median\<newline>2024-01-05,10\<newline>2024-01-20,20\<newline>2024-02-10,30\<newline>'',
      ''public/org_daily_executions.csv'' \<mapsto>
        File ''execution_date,org\<newline>2024-01-05,acme\<newline>2024-03-01,umbrella\<newline>'']"

definition box_row1 :: "scalar cell row" where
  "box_row1 =
     [(''execution_date'', Timestamp \<lparr>year = 2024, month = 1, day = 5, tod = 0\<rparr>),
      (''median'', Raw (Number 10))]"

definition box_row2 :: "scalar cell row" where
  "box_row2 =
     [(''execution_date'', Timestamp \<lparr>year = 2024, month = 1, day = 20, tod = 0\<rparr>),
      (''median'', Raw (Number 20))]"

definition box_row3 :: "scalar cell row" where
  "box_row3 =
     [(''execution_date'', Timestamp \<lparr>year = 2024, month = 2, day = 10, tod = 0\<rparr>),
      (''median'', Raw (Number 30))]"

definition org_row1 :: "scalar cell row" where
  "org_row1 =
     [(''execution_date'', Timestamp \<lparr>year = 2024, month = 1, day = 5, tod = 0\<rparr>),
      (''org'', Raw (Text ''acme''))]"

definition org_row2 :: "scalar cell row" where
  "org_row2 =
     [(''execution_date'', Timestamp \<lparr>year = 2024, month = 3, day = 1, tod = 0\<rparr>),
      (''org'', Raw (Text ''umbrella''))]"

definition scenario_box_raw :: "scalar frame" where
  "scenario_box_raw =
     \<lparr>columns = [''execution_date'', ''median''],
      rows = [[(''execution_date'', Text ''2024-01-05''), (''median'', Number 10)],
              [(''execution_date'', Text ''2024-01-20''), (''median'', Number 20)],
              [(''execution_date'', Text ''2024-02-10''), (''median'', Number 30)]]\<rparr>"

definition scenario_org_raw :: "scalar frame" where
  "scenario_org_raw =
     \<lparr>columns = [''execution_date'', ''org''],
      rows = [[(''execution_date'', Text ''2024-01-05''), (''org'', Text ''acme'')],
              [(''execution_date'', Text ''2024-03-01''), (''org'', Text ''umbrella'')]]\<rparr>"

definition scenario_box :: "scalar cell frame" where
  "scenario_box = \<lparr>columns = [''execution_date'', ''median''], rows = [box_row1, box_row2, box_row3]\<rparr>"

definition scenario_org :: "scalar cell frame" where
  "scenario_org = \<lparr>columns = [''execution_date'', ''org''], rows = [org_row1, org_row2]\<rparr>"

definition scenario_out :: fs where
  "scenario_out =
     scenario_fs
      (''public/monthly'' \<mapsto> Dir,
       ''public/monthly/box_plot_2024-01.csv'' \<mapsto>
         File ''execution_date,median\<newline>2024-01-05,10\<newline>2024-01-20,20\<newline>'',
       ''public/monthly/org_data_2024-01.csv'' \<mapsto>
         File ''execution_date,org\<newline>2024-01-05,acme\<newline>'',
       ''public/monthly/box_plot_2024-02.csv'' \<mapsto>
         File ''execution_date,median\<newline>2024-02-10,30\<newline>'',
       ''public/monthly/org_data_2024-02.csv'' \<mapsto>
         File ''execution_date,org\<newline>'')"

subsection \<open>Other inputs\<close>

text \<open>A first table whose second row holds a text that is not a date.\<close>

definition bad_date_fs :: fs where
  "bad_date_fs =
     [''public'' \<mapsto> Dir,
      ''public/box_plot_stats.csv'' \<mapsto>
        File ''execution_date,median\<newline>2024-01-05,10\<newline>not-a-date,20\<newline>'',
      ''public/org_daily_executions.csv'' \<mapsto>
        File ''execution_date,org\<newline>2024-01-05,acme\<newline>'']"

definition bad_date_box_raw :: "scalar frame" where
  "bad_date_box_raw =
     \<lparr>columns = [''execution_date'', ''median''],
      rows = [[(''execution_date'', Text ''2024-01-05''), (''median'', Number 10)],
              [(''execution_date'', Text ''not-a-date''), (''median'', Number 20)]]\<rparr>"

definition bad_date_org_raw :: "scalar frame" where
  "bad_date_org_raw =
     \<lparr>columns = [''execution_date'', ''org''],
      rows = [[(''execution_date'', Text ''2024-01-05''), (''org'', Text ''acme'')]]\<rparr>"

text \<open>A first table with a header and no rows, beside a second table with rows.\<close>

definition header_only_fs :: fs where
  "header_only_fs =
     [''public'' \<mapsto> Dir,
      ''public/box_plot_stats.csv'' \<mapsto> File ''execution_date,median\<newline>'',
      ''public/org_daily_executions.csv'' \<mapsto>
        File ''execution_date,org\<newline>2024-01-05,acme\<newline>2024-03-01,umbrella\<newline>'']"

definition header_only_box :: "scalar cell frame" where
  "header_only_box = \<lparr>columns = [''execution_date'', ''median''], rows = []\<rparr>"

text \<open>Dates with a time of day, and a number written with leading zeros.\<close>

definition padded_fs :: fs where
  "padded_fs =
     [''public'' \<mapsto> Dir,
      ''public/box_plot_stats.csv'' \<mapsto>
        File ''execution_date,median\<newline>2024-01-05 00:00:00,007\<newline>'',
      ''public/org_daily_executions.csv'' \<mapsto>
        File ''execution_date,org\<newline>2024-01-05 12:30:00,acme\<newline>'']"

definition padded_box_raw :: "scalar frame" where
  "padded_box_raw =
     \<lparr>columns = [''execution_date'', ''median''],
      rows = [[(''execution_date'', Text ''2024-01-05 00:00:00''), (''median'', Number 7)]]\<rparr>"

definition padded_org_raw :: "scalar frame" where
  "padded_org_raw =
     \<lparr>columns = [''execution_date'', ''org''],
      rows = [[(''execution_date'', Text ''2024-01-05 12:30:00''), (''org'', Text ''acme'')]]\<rparr>"

definition padded_box :: "scalar cell frame" where
  "padded_box =
     \<lparr>columns = [''execution_date'', ''median''],
      rows = [[(''execution_date'', Timestamp \<lparr>year = 2024, month = 1, day = 5, tod = 0\<rparr>),
               (''median'', Raw (Number 7))]]\<rparr>"

definition padded_org :: "scalar cell frame" where
  "padded_org =
     \<lparr>columns = [''execution_date'', ''org''],
      rows = [[(''execution_date'', Timestamp \<lparr>year = 2024, month = 1, day = 5, tod = 45000\<rparr>),
               (''org'', Raw (Text ''acme''))]]\<rparr>"

definition padded_out :: fs where
  "padded_out =
     padded_fs
      (''public/monthly'' \<mapsto> Dir,
       ''public/monthly/box_plot_2024-01.csv'' \<mapsto>
         File ''execution_date,median\<newline>2024-01-05,7\<newline>'',
       ''public/monthly/org_data_2024-01.csv'' \<mapsto>
         File ''execution_date,org\<newline>2024-01-05 12:30:00,acme\<newline>'')"

text \<open>A row without a date, in the first table and in the second.\<close>

definition missing_box_fs :: fs where
  "missing_box_fs =
     [''public'' \<mapsto> Dir,
      ''public/box_plot_stats.csv'' \<mapsto>
        File ''execution_date,median\<newline>2024-01-05,10\<newline>,20\<newline>'',
      ''public/org_daily_executions.csv'' \<mapsto>
        File ''execution_date,org\<newline>2024-01-05,acme\<newline>'']"

definition missing_org_fs :: fs where
  "missing_org_fs =
     [''public'' \<mapsto> Dir,
      ''public/box_plot_stats.csv'' \<mapsto>
        File ''execution_date,median\<newline>2024-01-05,10\<newline>'',
      ''public/org_daily_executions.csv'' \<mapsto>
        File ''execution_date,org\<newline>2024-01-05,acme\<newline>,umbrella\<newline>'']"

definition missing_box_raw :: "scalar frame" where
  "missing_box_raw =
     \<lparr>columns = [''execution_date'', ''median''],
      rows = [[(''execution_date'', Text ''2024-01-05''), (''median'', Number 10)],
              [(''median'', Number 20)]]\<rparr>"

definition single_box_raw :: "scalar frame" where
  "single_box_raw =
     \<lparr>columns = [''execution_date'', ''median''],
      rows = [[(''execution_date'', Text ''2024-01-05''), (''median'', Number 10)]]\<rparr>"

definition single_org_raw :: "scalar frame" where
  "single_org_raw =
     \<lparr>columns = [''execution_date'', ''org''],
      rows = [[(''execution_date'', Text ''2024-01-05''), (''org'', Text ''acme'')]]\<rparr>"

definition missing_org_raw :: "scalar frame" where
  "missing_org_raw =
     \<lparr>columns = [''execution_date'', ''org''],
      rows = [[(''execution_date'', Text ''2024-01-05''), (''org'', Text ''acme'')],
              [(''org'', Text ''umbrella'')]]\<rparr>"

definition missing_box :: "scalar cell frame" where
  "missing_box =
     \<lparr>columns = [''execution_date'', ''median''],
      rows = [[(''execution_date'', Timestamp \<lparr>year = 2024, month = 1, day = 5, tod = 0\<rparr>),
               (''median'', Raw (Number 10))],
              [(''median'', Raw (Number 20)), (''execution_date'', NaT)]]\<rparr>"

definition single_box :: "scalar cell frame" where
  "single_box =
     \<lparr>columns = [''execution_date'', ''median''],
      rows = [[(''execution_date'', Timestamp \<lparr>year = 2024, month = 1, day = 5, tod = 0\<rparr>),
               (''median'', Raw (Number 10))]]\<rparr>"

definition single_org :: "scalar cell frame" where
  "single_org =
     \<lparr>columns = [''execution_date'', ''org''],
      rows = [[(''execution_date'', Timestamp \<lparr>year = 2024, month = 1, day = 5, tod = 0\<rparr>),
               (''org'', Raw (Text ''acme''))]]\<rparr>"

definition missing_org :: "scalar cell frame" where
  "missing_org =
     \<lparr>columns = [''execution_date'', ''org''],
      rows = [[(''execution_date'', Timestamp \<lparr>year = 2024, month = 1, day = 5, tod = 0\<rparr>),
               (''org'', Raw (Text ''acme''))],
              [(''org'', Raw (Text ''umbrella'')), (''execution_date'', NaT)]]\<rparr>"

definition missing_box_out :: fs where
  "missing_box_out =
     missing_box_fs
      (''public/monthly'' \<mapsto> Dir,
       ''public/monthly/box_plot_2024-01.csv'' \<mapsto>
         File ''execution_date,median\<newline>2024-01-05,10\<newline>'',
       ''public/monthly/org_data_2024-01.csv'' \<mapsto>
         File ''execution_date,org\<newline>2024-01-05,acme\<newline>'')"

definition missing_org_out :: fs where
  "missing_org_out =
     missing_org_fs
      (''public/monthly'' \<mapsto> Dir,
       ''public/monthly/box_plot_2024-01.csv'' \<mapsto>
         File ''execution_date,median\<newline>2024-01-05,10\<newline>'',
       ''public/monthly/org_data_2024-01.csv'' \<mapsto>
         File ''execution_date,org\<newline>2024-01-05,acme\<newline>'')"

section \<open>Decimal numbers and file names\<close>

lemma digit_inj: "a < 10 \<Longrightarrow> b < 10 \<Longrightarrow> digit a = digit b \<Longrightarrow> a = b"
proof -
  assume a: "a < 10" and b: "b < 10" and e: "digit a = digit b"
  from e have "(of_char (char_of (48 + a) :: char) :: nat) = of_char (char_of (48 + b) :: char)"
    by (simp add: digit_def)
  with a b show ?thesis by simp
qed

lemma digit_not_dash: "d < 10 \<Longrightarrow> digit d \<noteq> CHR ''-''"
proof
  assume d: "d < 10" and e: "digit d = CHR ''-''"
  from e have "(of_char (char_of (48 + d) :: char) :: nat) = of_char (CHR ''-'')"
    by (simp add: digit_def)
  with d show False by simp
qed

lemma digit_zero: "d < 10 \<Longrightarrow> digit d = CHR ''0'' \<Longrightarrow> d = 0"
proof -
  assume d: "d < 10" and e: "digit d = CHR ''0''"
  from e have "(of_char (char_of (48 + d) :: char) :: nat) = of_char (CHR ''0'')"
    by (simp add: digit_def)
  with d show ?thesis by simp
qed

lemma dec_not_Nil: "dec n \<noteq> []"
  by (subst dec.simps) simp

lemma Nil_not_dec: "[] \<noteq> dec n"
  using dec_not_Nil [of n] by simp

lemma dash_notin_dec: "CHR ''-'' \<notin> set (dec n)"
proof (induction n rule: dec.induct)
  case (1 n)
  show ?case
  proof (cases "n < 10")
    case True
    then show ?thesis using digit_not_dash [of n] by (subst dec.simps) auto
  next
    case False
    then have "CHR ''-'' \<notin> set (dec (n div 10))" using 1 by simp
    moreover have "digit (n mod 10) \<noteq> CHR ''-''" by (rule digit_not_dash) simp
    ultimately show ?thesis using False by (subst dec.simps) auto
  qed
qed

lemma dec_inj: "dec n = dec m \<Longrightarrow> n = m"
proof (induction n arbitrary: m rule: dec.induct)
  case (1 n)
  show ?case
  proof (cases "n < 10")
    case n: True
    show ?thesis
    proof (cases "m < 10")
      case True
      with n 1(2) show ?thesis by (simp add: dec.simps [of n] dec.simps [of m] digit_inj)
    next
      case False
      with n 1(2) show ?thesis
        by (simp add: dec.simps [of n] dec.simps [of m] dec_not_Nil Nil_not_dec)
    qed
  next
    case n: False
    show ?thesis
    proof (cases "m < 10")
      case True
      with n 1(2) show ?thesis
        by (simp add: dec.simps [of n] dec.simps [of m] dec_not_Nil Nil_not_dec)
    next
      case False
      with n 1(2) have e: "dec (n div 10) = dec (m div 10)" "digit (n mod 10) = digit (m mod 10)"
        by (simp_all add: dec.simps [of n] dec.simps [of m])
      from e(1) n have "n div 10 = m div 10" using 1(1) by simp
      moreover from e(2) have "n mod 10 = m mod 10" by (intro digit_inj) simp_all
      ultimately show ?thesis by (metis div_mult_mod_eq)
    qed
  qed
qed

lemma hd_dec: "0 < n \<Longrightarrow> hd (dec n) \<noteq> CHR ''0''"
proof (induction n rule: dec.induct)
  case (1 n)
  show ?case
  proof (cases "n < 10")
    case True
    with 1(2) show ?thesis using digit_zero [of n] by (subst dec.simps) auto
  next
    case False
    then have "0 < n div 10" by simp
    with False 1 have "hd (dec (n div 10)) \<noteq> CHR ''0''" by simp
    with False show ?thesis by (subst dec.simps) (simp add: dec_not_Nil)
  qed
qed

lemma length_dec_ge2: "10 \<le> n \<Longrightarrow> 2 \<le> length (dec n)"
  by (subst dec.simps) (use dec_not_Nil [of "n div 10"] in \<open>cases "dec (n div 10)"; simp\<close>)


lemma two_digits_inj: "two_digits a = two_digits b \<Longrightarrow> a = b"
proof -
  assume e: "two_digits a = two_digits b"
  have aux: "x = y" if "x < 10" "\<not> y < 10" "CHR ''0'' # dec x = dec y" for x y
  proof -
    from that have "hd (dec y) = CHR ''0''" by (metis list.sel(1))
    moreover from that have "0 < y" by simp
    ultimately show ?thesis using hd_dec by blast
  qed
  show ?thesis
  proof (cases "a < 10"; cases "b < 10")
    assume "a < 10" "b < 10" with e show ?thesis by (simp add: two_digits_def dec_inj)
  next
    assume "a < 10" "\<not> b < 10" with e show ?thesis using aux [of a b] by (simp add: two_digits_def)
  next
    assume "\<not> a < 10" "b < 10" with e show ?thesis using aux [of b a] by (simp add: two_digits_def)
  next
    assume "\<not> a < 10" "\<not> b < 10" with e show ?thesis by (simp add: two_digits_def dec_inj)
  qed
qed

lemma split_at_dash:
  assumes "xs @ CHR ''-'' # ys = xs' @ CHR ''-'' # ys'"
    and "CHR ''-'' \<notin> set xs" and "CHR ''-'' \<notin> set xs'"
  shows "xs = xs' \<and> ys = ys'"
  using assms
proof (induction xs arbitrary: xs')
  case Nil
  then show ?case by (cases xs') auto
next
  case (Cons x xs)
  then show ?case by (cases xs') auto
qed

lemma strftime_inj: "strftime p = strftime q \<Longrightarrow> p = q"
proof -
  assume e: "strftime p = strftime q"
  have "dec (fst p) @ CHR ''-'' # two_digits (snd p) = dec (fst q) @ CHR ''-'' # two_digits (snd q)"
    using e by (simp add: strftime_def two_digits_def)
  then have "dec (fst p) = dec (fst q) \<and> two_digits (snd p) = two_digits (snd q)"
    by (rule split_at_dash) (rule dash_notin_dec)+
  then show ?thesis by (auto dest: dec_inj two_digits_inj intro: prod_eqI)
qed


section \<open>Sorting, and the loop\<close>

lemma set_py_insert: "set (py_insert x ys) = insert x (set ys)"
  by (induction ys) auto

lemma set_py_fold: "set (foldl (\<lambda>acc x. py_insert x acc) acc xs) = set acc \<union> set xs"
  by (induction xs arbitrary: acc) (auto simp: set_py_insert)

lemma set_py_sorted: "set (py_sorted xs) = set xs"
  by (simp add: py_sorted_def set_py_fold)

lemma py_insert_Some:
  "a \<notin> set ys \<Longrightarrow> py_insert (Some a) (map Some ys) = map Some (insort a ys)"
  by (induction ys) auto

lemma py_fold_Some:
  "distinct (acc @ xs) \<Longrightarrow>
   foldl (\<lambda>acc x. py_insert x acc) (map Some acc) (map Some xs) =
   map Some (foldl (\<lambda>acc x. insort x acc) acc xs)"
proof (induction xs arbitrary: acc)
  case Nil
  then show ?case by simp
next
  case (Cons x xs)
  from Cons.prems have x: "x \<notin> set acc" and d: "distinct (insort x acc @ xs)"
    by (auto simp: set_insort_key distinct_insort)
  from x have "py_insert (Some x) (map Some acc) = map Some (insort x acc)"
    by (rule py_insert_Some)
  with Cons.IH [OF d] show ?case by simp
qed

lemma sorted_fold_insort:
  "sorted acc \<Longrightarrow> sorted (foldl (\<lambda>acc x. insort x acc) acc xs)"
  by (induction xs arbitrary: acc) (auto simp: sorted_insort)

lemma set_fold_insort:
  "set (foldl (\<lambda>acc x. insort x acc) acc xs) = set acc \<union> set xs"
  by (induction xs arbitrary: acc) (auto simp: set_insort_key)

lemma distinct_fold_insort:
  "distinct (acc @ xs) \<Longrightarrow> distinct (foldl (\<lambda>acc x. insort x acc) acc xs)"
  by (induction xs arbitrary: acc) (auto simp: set_insort_key distinct_insort)

lemma py_sorted_Some: "distinct qs \<Longrightarrow> py_sorted (map Some qs) = map Some (sort qs)"
proof -
  assume d: "distinct qs"
  let ?ys = "foldl (\<lambda>acc x. insort x acc) [] qs"
  have "py_sorted (map Some qs) = map Some ?ys"
    using py_fold_Some [of "[]" qs] d by (simp add: py_sorted_def)
  moreover have "sort qs = ?ys"
    by (rule sorted_distinct_set_unique)
      (use d in \<open>simp_all add: set_fold_insort sorted_fold_insort distinct_fold_insort\<close>)
  ultimately show ?thesis by simp
qed

lemma set_unique: "set (unique xs) = set xs"
  by (simp add: unique_def)

lemma distinct_unique: "distinct (unique xs)"
  by (simp add: unique_def)

lemma no_None_map_the: "None \<notin> set xs \<Longrightarrow> map Some (map the xs) = xs"
  by (induction xs) auto

lemma to_csv_Inr:
  "to_csv L fs path df = Inr fs' \<Longrightarrow> fs' = fs(path \<mapsto> File (format_csv L df)) \<and> fs path \<noteq> Some Dir"
  by (auto simp: to_csv_def split: option.splits node.splits)

lemma to_csv_ok:
  "fs path \<noteq> Some Dir \<Longrightarrow> to_csv L fs path df = Inr (fs(path \<mapsto> File (format_csv L df)))"
  by (auto simp: to_csv_def split: option.splits node.splits)

lemma box_plot_path_inj: "box_plot_path p = box_plot_path q \<Longrightarrow> p = q"
  by (simp add: box_plot_path_def strftime_inj)

lemma org_data_path_inj: "org_data_path p = org_data_path q \<Longrightarrow> p = q"
  by (simp add: org_data_path_def strftime_inj)

lemma box_not_org: "box_plot_path p \<noteq> org_data_path q"
  by (simp add: box_plot_path_def org_data_path_def)

lemma paths_not_dir: "box_plot_path p \<noteq> monthly_dir" "org_data_path p \<noteq> monthly_dir"
  by (simp_all add: box_plot_path_def org_data_path_def monthly_dir_def)

lemma paths_not_input:
  "box_plot_path p \<noteq> box_plot_csv" "box_plot_path p \<noteq> org_data_csv"
  "org_data_path p \<noteq> box_plot_csv" "org_data_path p \<noteq> org_data_csv"
  "monthly_dir \<noteq> box_plot_csv" "monthly_dir \<noteq> org_data_csv"
  by (simp_all add: box_plot_path_def org_data_path_def monthly_dir_def box_plot_csv_def
      org_data_csv_def)

lemma loop_no_NaT: "monthly_loop L A B ps fs = Inr fs' \<Longrightarrow> None \<notin> set ps"
proof (induction L A B ps fs rule: monthly_loop.induct)
  case (1 L A B fs)
  then show ?case by simp
next
  case (2 L A B ps fs)
  then show ?case by simp
next
  case (3 L A B p ps fs)
  then show ?case by (auto simp: Let_def split: sum.splits)
qed

lemma loop_result:
  "monthly_loop L A B (map Some qs) fs = Inr fs' \<Longrightarrow>
   (\<forall>q\<in>set qs. fs' (box_plot_path q) = Some (File (format_csv L (select_month A q))) \<and>
                fs' (org_data_path q) = Some (File (format_csv L (select_month B q)))) \<and>
   (\<forall>p. p \<notin> box_plot_path ` set qs \<union> org_data_path ` set qs \<longrightarrow> fs' p = fs p)"
proof (induction qs arbitrary: fs)
  case Nil
  then show ?case by simp
next
  case (Cons q qs)
  let ?fs1 = "fs(box_plot_path q \<mapsto> File (format_csv L (select_month A q)))"
  let ?fs2 = "?fs1(org_data_path q \<mapsto> File (format_csv L (select_month B q)))"
  from Cons.prems have run: "monthly_loop L A B (map Some qs) ?fs2 = Inr fs'"
    by (auto simp: Let_def split: sum.splits dest!: to_csv_Inr)
  note IH = Cons.IH [OF run]
  have head: "fs' (box_plot_path q) = Some (File (format_csv L (select_month A q))) \<and>
              fs' (org_data_path q) = Some (File (format_csv L (select_month B q)))"
  proof (cases "q \<in> set qs")
    case True
    with IH show ?thesis by blast
  next
    case False
    then have "box_plot_path q \<notin> box_plot_path ` set qs \<union> org_data_path ` set qs"
      and "org_data_path q \<notin> box_plot_path ` set qs \<union> org_data_path ` set qs"
      by (auto simp: box_not_org box_not_org [symmetric] dest: box_plot_path_inj org_data_path_inj)
    with IH have "fs' (box_plot_path q) = ?fs2 (box_plot_path q)"
      and "fs' (org_data_path q) = ?fs2 (org_data_path q)" by blast+
    then show ?thesis by (simp add: box_not_org)
  qed
  have frame: "fs' p = fs p"
    if "p \<notin> box_plot_path ` set (q # qs) \<union> org_data_path ` set (q # qs)" for p
  proof -
    from that have "p \<notin> box_plot_path ` set qs \<union> org_data_path ` set qs"
      and "p \<noteq> box_plot_path q" and "p \<noteq> org_data_path q" by auto
    with IH have "fs' p = ?fs2 p" by blast
    with \<open>p \<noteq> box_plot_path q\<close> \<open>p \<noteq> org_data_path q\<close> show ?thesis by simp
  qed
  from head IH frame show ?case by auto
qed

lemma loop_succeeds:
  "(\<forall>q\<in>set qs. fs (box_plot_path q) \<noteq> Some Dir \<and> fs (org_data_path q) \<noteq> Some Dir) \<Longrightarrow>
   \<exists>fs'. monthly_loop L A B (map Some qs) fs = Inr fs'"
proof (induction qs arbitrary: fs)
  case Nil
  then show ?case by simp
next
  case (Cons q qs)
  let ?fs1 = "fs(box_plot_path q \<mapsto> File (format_csv L (select_month A q)))"
  let ?fs2 = "?fs1(org_data_path q \<mapsto> File (format_csv L (select_month B q)))"
  from Cons.prems have a: "to_csv L fs (box_plot_path q) (select_month A q) = Inr ?fs1"
    by (simp add: to_csv_ok)
  from Cons.prems have b: "to_csv L ?fs1 (org_data_path q) (select_month B q) = Inr ?fs2"
    by (intro to_csv_ok) (simp add: box_not_org [symmetric])
  have "\<forall>q'\<in>set qs. ?fs2 (box_plot_path q') \<noteq> Some Dir \<and> ?fs2 (org_data_path q') \<noteq> Some Dir"
    using Cons.prems by auto
  from Cons.IH [OF this] obtain fs' where "monthly_loop L A B (map Some qs) ?fs2 = Inr fs'" ..
  with a b show ?case by (simp add: Let_def)
qed

lemma loop_dirs:
  "monthly_loop L A B (map Some qs) fs = Inr fs' \<Longrightarrow>
   \<forall>q\<in>set qs. fs (box_plot_path q) \<noteq> Some Dir \<and> fs (org_data_path q) \<noteq> Some Dir"
proof (induction qs arbitrary: fs)
  case Nil
  then show ?case by simp
next
  case (Cons q qs)
  let ?fs1 = "fs(box_plot_path q \<mapsto> File (format_csv L (select_month A q)))"
  let ?fs2 = "?fs1(org_data_path q \<mapsto> File (format_csv L (select_month B q)))"
  from Cons.prems have run: "monthly_loop L A B (map Some qs) ?fs2 = Inr fs'"
    and h: "fs (box_plot_path q) \<noteq> Some Dir" "?fs1 (org_data_path q) \<noteq> Some Dir"
    by (auto simp: Let_def split: sum.splits dest!: to_csv_Inr)
  from Cons.IH [OF run] have
    r: "\<forall>q'\<in>set qs. ?fs2 (box_plot_path q') \<noteq> Some Dir \<and> ?fs2 (org_data_path q') \<noteq> Some Dir" .
  have "fs (box_plot_path q') \<noteq> Some Dir \<and> fs (org_data_path q') \<noteq> Some Dir"
    if "q' \<in> set (q # qs)" for q'
  proof (cases "q' = q")
    case True
    with h show ?thesis by (simp add: box_not_org [symmetric])
  next
    case False
    with that r have "?fs2 (box_plot_path q') \<noteq> Some Dir \<and> ?fs2 (org_data_path q') \<noteq> Some Dir"
      by simp
    with False show ?thesis
      by (auto simp: box_not_org box_not_org [symmetric] split: if_splits
          dest: box_plot_path_inj org_data_path_inj)
  qed
  then show ?case by blast
qed

section \<open>A successful run\<close>

lemma mkdir_Inr: "mkdir fs path = Inr fs1 \<Longrightarrow> fs1 = fs(path \<mapsto> Dir)"
  by (auto simp: mkdir_def split: option.splits node.splits)

lemma mkdir_ok: "mkdir fs path = Inr fs1 \<Longrightarrow> \<forall>bytes. fs path \<noteq> Some (File bytes)"
  by (auto simp: mkdir_def split: option.splits node.splits)

lemma mkdir_succeeds:
  "\<forall>bytes. fs path \<noteq> Some (File bytes) \<Longrightarrow> mkdir fs path = Inr (fs(path \<mapsto> Dir))"
  by (auto simp: mkdir_def split: option.splits node.splits)

lemma run_Inr:
  assumes "split_data_by_month L fs = Inr fs'"
  shows "\<exists>A B. load_tables L fs = Inr (A, B) \<and>
           (\<forall>bytes. fs monthly_dir \<noteq> Some (File bytes)) \<and>
           monthly_loop L A B (py_sorted (box_plot_months A)) (fs(monthly_dir \<mapsto> Dir)) = Inr fs'"
proof (cases "load_tables L fs")
  case (Inl e)
  with assms show ?thesis by (simp add: split_data_by_month_def)
next
  case (Inr ab)
  obtain A B where ab: "ab = (A, B)" by (cases ab)
  show ?thesis
  proof (cases "mkdir fs monthly_dir :: 'a error + fs")
    case (Inl e)
    with assms Inr ab show ?thesis by (simp add: split_data_by_month_def)
  next
    case m: (Inr fs1)
    from m have "fs1 = fs(monthly_dir \<mapsto> Dir)" by (rule mkdir_Inr)
    moreover from m have "\<forall>bytes. fs monthly_dir \<noteq> Some (File bytes)" by (rule mkdir_ok)
    ultimately show ?thesis using assms Inr ab m by (simp add: split_data_by_month_def)
  qed
qed

lemma months_Some:
  assumes "None \<notin> set (box_plot_months A)"
  shows "py_sorted (box_plot_months A) = map Some (sort (map the (box_plot_months A)))"
    and "distinct (map the (box_plot_months A))"
    and "set (map the (box_plot_months A)) = {q. Some q \<in> row_period ` set (rows A)}"
proof -
  let ?qs = "map the (box_plot_months A)"
  from assms have e: "map Some ?qs = box_plot_months A" by (rule no_None_map_the)
  have "distinct (map Some ?qs)" unfolding e by (simp add: box_plot_months_def distinct_unique)
  then show d: "distinct ?qs" using distinct_map [of Some ?qs] by blast
  from py_sorted_Some [OF d] show "py_sorted (box_plot_months A) = map Some (sort ?qs)"
    by (simp only: e)
  have "Some ` set ?qs = set (box_plot_months A)" using e by (metis set_map)
  also have "\<dots> = row_period ` set (rows A)" by (simp add: box_plot_months_def set_unique)
  finally have eq: "row_period ` set (rows A) = Some ` set ?qs" by (rule sym)
  have "{q. Some q \<in> row_period ` set (rows A)} = {q. Some q \<in> Some ` set ?qs}"
    by (simp only: eq)
  also have "\<dots> = set ?qs" by blast
  finally show "set ?qs = {q. Some q \<in> row_period ` set (rows A)}" by (rule sym)
qed

text \<open>What a successful run has done, in one lemma.\<close>

lemma run_summary:
  assumes l: "load_tables L fs = Inr (A, B)" and r: "split_data_by_month L fs = Inr fs'"
  shows "None \<notin> row_period ` set (rows A)"
    and "\<And>q. Some q \<in> row_period ` set (rows A) \<Longrightarrow>
           fs' (box_plot_path q) = Some (File (format_csv L (select_month A q))) \<and>
           fs' (org_data_path q) = Some (File (format_csv L (select_month B q)))"
    and "\<And>p. (\<And>q. Some q \<in> row_period ` set (rows A) \<Longrightarrow>
                 p \<noteq> box_plot_path q \<and> p \<noteq> org_data_path q) \<Longrightarrow>
           fs' p = (fs(monthly_dir \<mapsto> Dir)) p"
    and "py_sorted (box_plot_months A) = map Some (sort (map the (box_plot_months A)))"
    and "set (sort (map the (box_plot_months A))) = {q. Some q \<in> row_period ` set (rows A)}"
    and "distinct (sort (map the (box_plot_months A)))"
    and "\<forall>bytes. fs monthly_dir \<noteq> Some (File bytes)"
proof -
  from r l have m: "\<forall>bytes. fs monthly_dir \<noteq> Some (File bytes)"
    and loop: "monthly_loop L A B (py_sorted (box_plot_months A)) (fs(monthly_dir \<mapsto> Dir)) = Inr fs'"
    using run_Inr [OF r] by auto
  from loop have "None \<notin> set (py_sorted (box_plot_months A))" by (rule loop_no_NaT)
  then have n: "None \<notin> set (box_plot_months A)" by (simp add: set_py_sorted)
  then show "None \<notin> row_period ` set (rows A)" by (simp add: box_plot_months_def set_unique)
  let ?qs = "sort (map the (box_plot_months A))"
  note ms = months_Some [OF n]
  show s: "py_sorted (box_plot_months A) = map Some ?qs" by (rule ms(1))
  show q: "set ?qs = {q. Some q \<in> row_period ` set (rows A)}" using ms(3) by simp
  show "distinct ?qs" using ms(2) by simp
  show "\<forall>bytes. fs monthly_dir \<noteq> Some (File bytes)" by (rule m)
  from loop s have "monthly_loop L A B (map Some ?qs) (fs(monthly_dir \<mapsto> Dir)) = Inr fs'" by simp
  note res = loop_result [OF this]
  show "fs' (box_plot_path q) = Some (File (format_csv L (select_month A q))) \<and>
        fs' (org_data_path q) = Some (File (format_csv L (select_month B q)))"
    if "Some q \<in> row_period ` set (rows A)" for q
  proof -
    from that q have "q \<in> set ?qs" by blast
    with res show ?thesis by blast
  qed
  show "fs' p = (fs(monthly_dir \<mapsto> Dir)) p"
    if "\<And>q. Some q \<in> row_period ` set (rows A) \<Longrightarrow> p \<noteq> box_plot_path q \<and> p \<noteq> org_data_path q" for p
  proof -
    from that q have "p \<notin> box_plot_path ` set ?qs \<union> org_data_path ` set ?qs" by blast
    with res show ?thesis by blast
  qed
qed

lemma select_month_rows: "rows (select_month df q) = filter (\<lambda>r. row_period r = Some q) (rows df)"
  by (simp add: select_month_def)

lemma select_month_columns: "columns (select_month df q) = columns df"
  by (simp add: select_month_def)

lemma count_list_filter: "P x \<Longrightarrow> count_list (filter P xs) x = count_list xs x"
  by (induction xs) auto

section \<open>Date conversion\<close>

lemma to_datetime_from_Inr:
  "to_datetime_from L k vs = Inr ds \<Longrightarrow>
   ds = map (date_cell L) vs \<and> (\<forall>v. Some v \<in> set vs \<longrightarrow> parse_date L v \<noteq> Unparseable)"
proof (induction vs arbitrary: k ds)
  case Nil
  then show ?case by simp
next
  case (Cons x vs)
  show ?case
  proof (cases x)
    case None
    with Cons.prems obtain ds' where d: "to_datetime_from L (Suc k) vs = Inr ds'" "ds = NaT # ds'"
      by (auto split: sum.splits)
    from Cons.IH [OF d(1)] d(2) None show ?thesis by (auto simp: date_cell_def)
  next
    case (Some v)
    show ?thesis
    proof (cases "parse_date L v")
      case Unparseable
      with Cons.prems Some show ?thesis by simp
    next
      case Null
      with Cons.prems Some obtain ds' where
        d: "to_datetime_from L (Suc k) vs = Inr ds'" "ds = NaT # ds'"
        by (auto split: sum.splits)
      from Cons.IH [OF d(1)] d(2) Some Null show ?thesis by (auto simp: date_cell_def)
    next
      case (Date t)
      with Cons.prems Some obtain ds' where
        d: "to_datetime_from L (Suc k) vs = Inr ds'" "ds = Timestamp t # ds'"
        by (auto split: sum.splits)
      from Cons.IH [OF d(1)] d(2) Some Date show ?thesis by (auto simp: date_cell_def)
    qed
  qed
qed

lemma to_datetime_from_Inl:
  "to_datetime_from L k vs = Inl e \<Longrightarrow>
   \<exists>i v. i < length vs \<and> vs ! i = Some v \<and> parse_date L v = Unparseable \<and>
         e = DateParseError (k + i) v \<and>
         (\<forall>j<i. \<forall>w. vs ! j = Some w \<longrightarrow> parse_date L w \<noteq> Unparseable)"
proof (induction vs arbitrary: k)
  case Nil
  then show ?case by simp
next
  case (Cons x vs)
  have later: ?case
    if r: "to_datetime_from L (Suc k) vs = Inl e"
      and ok: "\<forall>w. x = Some w \<longrightarrow> parse_date L w \<noteq> Unparseable"
  proof -
    from Cons.IH [OF r] obtain i v where
      i: "i < length vs" "vs ! i = Some v" "parse_date L v = Unparseable"
        "e = DateParseError (Suc k + i) v"
        "\<forall>j<i. \<forall>w. vs ! j = Some w \<longrightarrow> parse_date L w \<noteq> Unparseable"
      by blast
    have "\<forall>j<Suc i. \<forall>w. (x # vs) ! j = Some w \<longrightarrow> parse_date L w \<noteq> Unparseable"
    proof (intro allI impI)
      fix j w assume "j < Suc i" "(x # vs) ! j = Some w"
      then show "parse_date L w \<noteq> Unparseable" using ok i(5) by (cases j) auto
    qed
    with i(1-4) show ?thesis
      by (intro exI [of _ "Suc i"] exI [of _ v]) simp
  qed
  show ?case
  proof (cases x)
    case None
    with Cons.prems have "to_datetime_from L (Suc k) vs = Inl e" by (auto split: sum.splits)
    with None show ?thesis by (intro later) simp_all
  next
    case (Some v)
    show ?thesis
    proof (cases "parse_date L v")
      case Unparseable
      with Cons.prems Some have "e = DateParseError k v" by simp
      with Some Unparseable show ?thesis
        by (intro exI [of _ 0] exI [of _ v]) simp
    next
      case Null
      with Cons.prems Some have "to_datetime_from L (Suc k) vs = Inl e"
        by (auto split: sum.splits)
      with Some Null show ?thesis by (intro later) simp_all
    next
      case (Date t)
      with Cons.prems Some have "to_datetime_from L (Suc k) vs = Inl e"
        by (auto split: sum.splits)
      with Some Date show ?thesis by (intro later) simp_all
    qed
  qed
qed

lemma convert_dates_Inl:
  assumes "''execution_date'' \<in> set (columns df)"
    and "convert_dates L df = Inl e"
  shows "\<exists>i v. i < length (rows df) \<and> map_of (rows df ! i) ''execution_date'' = Some v \<and>
           parse_date L v = Unparseable \<and> e = DateParseError i v \<and>
           (\<forall>j<i. \<forall>w. map_of (rows df ! j) ''execution_date'' = Some w \<longrightarrow>
                        parse_date L w \<noteq> Unparseable)"
proof -
  let ?vs = "map (\<lambda>r. map_of r ''execution_date'') (rows df)"
  from assms have "to_datetime_from L 0 ?vs = Inl e"
    by (auto simp: convert_dates_def getitem_def to_datetime_def split: sum.splits)
  from to_datetime_from_Inl [OF this] show ?thesis by auto
qed

lemma convert_dates_Inr:
  assumes "convert_dates L df = Inr df'"
  shows "''execution_date'' \<in> set (columns df)"
    and "columns df' = columns df"
    and "rows df' =
           map (\<lambda>r. set_cell ''execution_date'' (date_cell L (map_of r ''execution_date''))
                      (keep_raw r)) (rows df)"
    and "\<forall>r\<in>set (rows df). \<forall>v. map_of r ''execution_date'' = Some v \<longrightarrow>
           parse_date L v \<noteq> Unparseable"
proof -
  let ?vs = "map (\<lambda>r. map_of r ''execution_date'') (rows df)"
  from assms show c: "''execution_date'' \<in> set (columns df)"
    by (auto simp: convert_dates_def getitem_def split: if_splits)
  with assms obtain ds where ds: "to_datetime_from L 0 ?vs = Inr ds"
    and df': "df' = setitem df ''execution_date'' ds"
    by (auto simp: convert_dates_def getitem_def to_datetime_def split: sum.splits)
  from to_datetime_from_Inr [OF ds] have m: "ds = map (date_cell L) ?vs"
    and ok: "\<forall>v. Some v \<in> set ?vs \<longrightarrow> parse_date L v \<noteq> Unparseable" by blast+
  show "columns df' = columns df" by (simp add: df' setitem_def)
  have "map (\<lambda>(r, v). set_cell ''execution_date'' v (keep_raw r))
          (zip xs (map (date_cell L) (map (\<lambda>r. map_of r ''execution_date'') xs))) =
        map (\<lambda>r. set_cell ''execution_date'' (date_cell L (map_of r ''execution_date''))
                   (keep_raw r)) xs" for xs :: "'a row list"
    by (induction xs) simp_all
  then show "rows df' =
           map (\<lambda>r. set_cell ''execution_date'' (date_cell L (map_of r ''execution_date''))
                      (keep_raw r)) (rows df)"
    by (simp add: df' setitem_def m)
  show "\<forall>r\<in>set (rows df). \<forall>v. map_of r ''execution_date'' = Some v \<longrightarrow>
           parse_date L v \<noteq> Unparseable"
  proof (intro ballI allI impI)
    fix r v assume "r \<in> set (rows df)" "map_of r ''execution_date'' = Some v"
    then have "Some v \<in> set ?vs" by force
    with ok show "parse_date L v \<noteq> Unparseable" by blast
  qed
qed

lemma map_of_set_cell: "map_of (set_cell c v r) k = (if k = c then Some v else map_of r k)"
  by (induction c v r rule: set_cell.induct) auto

lemma map_of_keep_raw: "map_of (keep_raw r) k = map_option Raw (map_of r k)"
  by (induction r) (auto simp: keep_raw_def)

lemma date_cell_not_Raw: "date_cell L x \<noteq> Raw c"
  by (simp add: date_cell_def split: option.splits parsed.splits)

text \<open>After lines 10 and 11 the date column holds Timestamps and NaT only.\<close>

lemma convert_dates_cells:
  assumes "convert_dates L df = Inr df'" and "r \<in> set (rows df')"
  shows "(\<exists>t. map_of r ''execution_date'' = Some (Timestamp t)) \<or>
         map_of r ''execution_date'' = Some NaT"
proof -
  from convert_dates_Inr(3) [OF assms(1)] assms(2) obtain r0 where
    "r = set_cell ''execution_date'' (date_cell L (map_of r0 ''execution_date'')) (keep_raw r0)"
    by auto
  then have "map_of r ''execution_date'' = Some (date_cell L (map_of r0 ''execution_date''))"
    by (simp add: map_of_set_cell)
  then show ?thesis
    using date_cell_not_Raw [of L "map_of r0 ''execution_date''"]
    by (cases "date_cell L (map_of r0 ''execution_date'')") auto
qed

lemma load_tables_Inr:
  assumes "load_tables L fs = Inr (A, B)"
  shows "\<exists>A0 B0. read_csv L fs box_plot_csv = Inr A0 \<and> read_csv L fs org_data_csv = Inr B0 \<and>
           convert_dates L A0 = Inr A \<and> convert_dates L B0 = Inr B"
  using assms by (auto simp: load_tables_def split: sum.splits)


section \<open>Further facts about names, the loop and reading\<close>





lemma loop_cong:
  assumes "\<And>q. Some q \<in> set ps \<Longrightarrow> select_month B q = select_month B' q"
  shows "monthly_loop L A B ps fs = monthly_loop L A B' ps fs"
  using assms
proof (induction L A B ps fs rule: monthly_loop.induct)
  case (1 L A B fs)
  then show ?case by simp
next
  case (2 L A B ps fs)
  then show ?case by simp
next
  case (3 L A B p ps fs)
  from "3.prems" have e: "select_month B p = select_month B' p" by simp
  show ?case
  proof (cases "to_csv L fs (box_plot_path p) (select_month A p)")
    case (Inl err)
    then show ?thesis by (simp add: Let_def)
  next
    case f1: (Inr fs1)
    show ?thesis
    proof (cases "to_csv L fs1 (org_data_path p) (select_month B p)")
      case (Inl err)
      with f1 e show ?thesis by (simp add: Let_def)
    next
      case f2: (Inr fs2)
      have "monthly_loop L A B ps fs2 = monthly_loop L A B' ps fs2"
        using "3.IH" [OF refl refl f1 f2] "3.prems" by simp
      with f1 f2 e show ?thesis by (simp add: Let_def)
    qed
  qed
qed

lemma select_month_without:
  "row_period r \<noteq> Some q \<Longrightarrow>
   select_month (B\<lparr>rows := filter (\<lambda>x. x \<noteq> r) (rows B)\<rparr>) q = select_month B q"
proof -
  assume n: "row_period r \<noteq> Some q"
  have "filter (\<lambda>x. row_period x = Some q) (filter (\<lambda>x. x \<noteq> r) xs) =
        filter (\<lambda>x. row_period x = Some q) xs" for xs
    using n by (induction xs) auto
  then show ?thesis by (simp add: select_month_def)
qed

lemma py_sorted_Nil: "py_sorted [] = []"
  by (simp add: py_sorted_def)

lemma read_csv_local: "fs' path = fs path \<Longrightarrow> read_csv L fs' path = read_csv L fs path"
  unfolding read_csv_def by simp

lemma load_tables_local:
  "fs' box_plot_csv = fs box_plot_csv \<Longrightarrow> fs' org_data_csv = fs org_data_csv \<Longrightarrow>
   load_tables L fs' = load_tables L fs"
proof -
  assume a: "fs' box_plot_csv = fs box_plot_csv" and b: "fs' org_data_csv = fs org_data_csv"
  show ?thesis
    unfolding load_tables_def
    by (simp only: read_csv_local [of fs' box_plot_csv fs, OF a]
        read_csv_local [of fs' org_data_csv fs, OF b])
qed

lemma inputs_not_outputs:
  "box_plot_csv \<noteq> box_plot_path q" "box_plot_csv \<noteq> org_data_path q"
  "org_data_csv \<noteq> box_plot_path q" "org_data_csv \<noteq> org_data_path q"
  "monthly_dir \<noteq> box_plot_path q" "monthly_dir \<noteq> org_data_path q"
  by (simp_all add: box_plot_path_def org_data_path_def monthly_dir_def box_plot_csv_def
      org_data_csv_def)

lemma mkdir_Dir: "fs path = Some Dir \<Longrightarrow> mkdir fs path = Inr fs"
  by (simp add: mkdir_def)

section \<open>The concrete inputs, evaluated\<close>

lemma run_eq:
  assumes "load_tables L fs = Inr (A, B)"
    and "\<forall>bytes. fs monthly_dir \<noteq> Some (File bytes)"
    and "py_sorted (box_plot_months A) = ps"
    and "monthly_loop L A B ps (fs(monthly_dir \<mapsto> Dir)) = res"
  shows "split_data_by_month L fs = res"
  using assms by (simp add: split_data_by_month_def mkdir_succeeds)

lemma loop_step:
  assumes "fs (box_plot_path p) \<noteq> Some Dir" and "fs (org_data_path p) \<noteq> Some Dir"
  shows "monthly_loop L A B (Some p # ps) fs =
         monthly_loop L A B ps
           (fs(box_plot_path p \<mapsto> File (format_csv L (select_month A p)),
               org_data_path p \<mapsto> File (format_csv L (select_month B p))))"
proof -
  let ?fs1 = "fs(box_plot_path p \<mapsto> File (format_csv L (select_month A p)))"
  from assms(1) have a: "to_csv L fs (box_plot_path p) (select_month A p) = Inr ?fs1"
    by (rule to_csv_ok)
  from assms(2) have "?fs1 (org_data_path p) \<noteq> Some Dir"
    by (simp add: box_not_org [symmetric])
  then have "to_csv L ?fs1 (org_data_path p) (select_month B p) =
             Inr (?fs1(org_data_path p \<mapsto> File (format_csv L (select_month B p))))"
    by (rule to_csv_ok)
  with a show ?thesis by (simp add: Let_def)
qed

subsection \<open>Digits, dates and names\<close>

lemma digit_simps:
  "digit 0 = CHR ''0''" "digit 1 = CHR ''1''" "digit 2 = CHR ''2''" "digit 3 = CHR ''3''"
  "digit 4 = CHR ''4''" "digit 5 = CHR ''5''" "digit 6 = CHR ''6''" "digit 7 = CHR ''7''"
  "digit 8 = CHR ''8''" "digit 9 = CHR ''9''"
  "digit (Suc 0) = CHR ''1''"
  by (simp_all add: digit_def char_of_eq_iff)

lemma dec_numeral: "dec (numeral k) =
  (if numeral k < (10::nat) then [digit (numeral k)]
   else dec (numeral k div 10) @ [digit (numeral k mod 10)])"
  by (rule dec.simps)

lemma mini_simps:
  "parse_csv mini = mini_parse_csv" "parse_date mini = mini_parse_date"
  "format_csv mini = mini_format_csv"
  by (simp_all add: mini_def)

lemma undigit_simps:
  "undigit CHR ''0'' = Some 0" "undigit CHR ''1'' = Some 1" "undigit CHR ''2'' = Some 2"
  "undigit CHR ''3'' = Some 3" "undigit CHR ''4'' = Some 4" "undigit CHR ''5'' = Some 5"
  "undigit CHR ''6'' = Some 6" "undigit CHR ''7'' = Some 7" "undigit CHR ''8'' = Some 8"
  "undigit CHR ''9'' = Some 9" "undigit CHR ''-'' = None" "undigit CHR '':'' = None"
  "undigit CHR '' '' = None"
  by (simp_all add: undigit_def)

lemma parse_dates:
  "parse_text_date ''2024-01-05'' = Date \<lparr>year = 2024, month = 1, day = 5, tod = 0\<rparr>"
  "parse_text_date ''2024-01-20'' = Date \<lparr>year = 2024, month = 1, day = 20, tod = 0\<rparr>"
  "parse_text_date ''2024-02-10'' = Date \<lparr>year = 2024, month = 2, day = 10, tod = 0\<rparr>"
  "parse_text_date ''2024-03-01'' = Date \<lparr>year = 2024, month = 3, day = 1, tod = 0\<rparr>"
  "parse_text_date ''2024-01-05 00:00:00'' = Date \<lparr>year = 2024, month = 1, day = 5, tod = 0\<rparr>"
  "parse_text_date ''2024-01-05 12:30:00'' =
     Date \<lparr>year = 2024, month = 1, day = 5, tod = 45000\<rparr>"
  by (simp_all add: parse_text_date_def parse_ymd_def parse_hms_def undec_def undigit_simps)

lemma not_a_date_text: "parse_text_date ''not-a-date'' = Unparseable"
  by (simp add: parse_text_date_def parse_ymd_def parse_hms_def undec_def undigit_def)

lemma path_2024:
  "monthly_dir = ''public/monthly''"
  "box_plot_path (2024, 1) = ''public/monthly/box_plot_2024-01.csv''"
  "org_data_path (2024, 1) = ''public/monthly/org_data_2024-01.csv''"
  "box_plot_path (2024, 2) = ''public/monthly/box_plot_2024-02.csv''"
  "org_data_path (2024, 2) = ''public/monthly/org_data_2024-02.csv''"
  "box_plot_path (2024, 3) = ''public/monthly/box_plot_2024-03.csv''"
  "org_data_path (2024, 3) = ''public/monthly/org_data_2024-03.csv''"
  by (simp_all add: monthly_dir_def box_plot_path_def org_data_path_def strftime_def
      two_digits_def dec_numeral dec.simps [of "Suc 0"] digit_simps)


subsection \<open>The scenario\<close>

lemma scenario_reads:
  "read_csv mini scenario_fs box_plot_csv = Inr scenario_box_raw"
  "read_csv mini scenario_fs org_data_csv = Inr scenario_org_raw"
  by code_simp+

lemma scenario_converts:
  "convert_dates mini scenario_box_raw = Inr scenario_box"
  "convert_dates mini scenario_org_raw = Inr scenario_org"
  by (simp_all add: convert_dates_def getitem_def to_datetime_def setitem_def keep_raw_def
      scenario_box_raw_def scenario_org_raw_def scenario_box_def scenario_org_def
      box_row1_def box_row2_def box_row3_def org_row1_def org_row2_def mini_simps parse_dates)

lemma scenario_load: "load_tables mini scenario_fs = Inr (scenario_box, scenario_org)"
  by (simp add: load_tables_def scenario_reads scenario_converts)

lemma scenario_periods:
  "row_period box_row1 = Some (2024, 1)" "row_period box_row2 = Some (2024, 1)"
  "row_period box_row3 = Some (2024, 2)"
  "row_period org_row1 = Some (2024, 1)" "row_period org_row2 = Some (2024, 3)"
  by (simp_all add: row_period_def to_period_def box_row1_def box_row2_def box_row3_def
      org_row1_def org_row2_def)

lemma months_2024:
  "py_sorted (unique [Some (2024, 1), Some (2024, 1), Some (2024, 2)]) =
     [Some (2024, 1), Some (2024, 2)]"
  "py_sorted (unique [Some (2024, 1)]) = [Some (2024, 1)]"
  by (simp_all add: py_sorted_def unique_def)

lemma scenario_months:
  "py_sorted (box_plot_months scenario_box) = [Some (2024, 1), Some (2024, 2)]"
  unfolding box_plot_months_def scenario_box_def
  by (simp only: frame.simps list.map scenario_periods months_2024)

lemma scenario_selects:
  "select_month scenario_box (2024, 1) = scenario_box\<lparr>rows := [box_row1, box_row2]\<rparr>"
  "select_month scenario_org (2024, 1) = scenario_org\<lparr>rows := [org_row1]\<rparr>"
  "select_month scenario_box (2024, 2) = scenario_box\<lparr>rows := [box_row3]\<rparr>"
  "select_month scenario_org (2024, 2) = scenario_org\<lparr>rows := []\<rparr>"
  by (simp_all add: select_month_def scenario_box_def scenario_org_def scenario_periods)

lemma scenario_texts:
  "format_csv mini (scenario_box\<lparr>rows := [box_row1, box_row2]\<rparr>) =
     ''execution_date,median\<newline>2024-01-05,10\<newline>2024-01-20,20\<newline>''"
  "format_csv mini (scenario_org\<lparr>rows := [org_row1]\<rparr>) =
     ''execution_date,org\<newline>2024-01-05,acme\<newline>''"
  "format_csv mini (scenario_box\<lparr>rows := [box_row3]\<rparr>) =
     ''execution_date,median\<newline>2024-02-10,30\<newline>''"
  "format_csv mini (scenario_org\<lparr>rows := []\<rparr>) = ''execution_date,org\<newline>''"
  by (simp_all add: mini_simps mini_format_csv_def format_date_def two_digits_def dec_numeral
      dec.simps [of "Suc 0"] digit_simps scenario_box_def scenario_org_def box_row1_def
      box_row2_def box_row3_def org_row1_def org_row2_def newline_def)

lemma scenario_files:
  "format_csv mini (select_month scenario_box (2024, 1)) =
     ''execution_date,median\<newline>2024-01-05,10\<newline>2024-01-20,20\<newline>''"
  "format_csv mini (select_month scenario_org (2024, 1)) =
     ''execution_date,org\<newline>2024-01-05,acme\<newline>''"
  "format_csv mini (select_month scenario_box (2024, 2)) =
     ''execution_date,median\<newline>2024-02-10,30\<newline>''"
  "format_csv mini (select_month scenario_org (2024, 2)) =
     ''execution_date,org\<newline>''"
  by (simp_all only: scenario_selects scenario_texts)

lemma scenario_no_dir:
  "\<forall>bytes. scenario_fs monthly_dir \<noteq> Some (File bytes)"
  by (simp add: scenario_fs_def monthly_dir_def)

lemma scenario_run: "split_data_by_month mini scenario_fs = Inr scenario_out"
proof (rule run_eq [OF scenario_load scenario_no_dir scenario_months])
  let ?fs1 = "scenario_fs(monthly_dir \<mapsto> Dir)"
  have "monthly_loop mini scenario_box scenario_org [Some (2024, 1), Some (2024, 2)] ?fs1 =
        monthly_loop mini scenario_box scenario_org [Some (2024, 2)]
          (?fs1(box_plot_path (2024, 1) \<mapsto> File (format_csv mini (select_month scenario_box (2024, 1))),
                org_data_path (2024, 1) \<mapsto> File (format_csv mini (select_month scenario_org (2024, 1)))))"
    by (rule loop_step) (simp_all only: path_2024, simp_all add: scenario_fs_def)
  also have "\<dots> =
        monthly_loop mini scenario_box scenario_org []
          (?fs1(box_plot_path (2024, 1) \<mapsto> File (format_csv mini (select_month scenario_box (2024, 1))),
                org_data_path (2024, 1) \<mapsto> File (format_csv mini (select_month scenario_org (2024, 1))),
                box_plot_path (2024, 2) \<mapsto> File (format_csv mini (select_month scenario_box (2024, 2))),
                org_data_path (2024, 2) \<mapsto> File (format_csv mini (select_month scenario_org (2024, 2)))))"
    by (rule loop_step) (simp_all only: path_2024, simp_all add: scenario_fs_def)
  also have "\<dots> = Inr scenario_out"
    by (simp only: monthly_loop.simps path_2024 scenario_files scenario_out_def)
  finally show "monthly_loop mini scenario_box scenario_org [Some (2024, 1), Some (2024, 2)] ?fs1 =
    Inr scenario_out" .
qed

lemma scenario_period_set:
  "row_period ` set (rows scenario_box) = {Some (2024, 1), Some (2024, 2)}"
  unfolding scenario_box_def by (simp only: frame.simps list.set image_insert image_empty
      scenario_periods insert_absorb2)

subsection \<open>The other inputs\<close>

lemma header_only_reads:
  "read_csv mini header_only_fs box_plot_csv =
     Inr \<lparr>columns = [''execution_date'', ''median''], rows = []\<rparr>"
  "read_csv mini header_only_fs org_data_csv = Inr scenario_org_raw"
  by code_simp+

lemma header_only_convert:
  "convert_dates mini \<lparr>columns = [''execution_date'', ''median''], rows = []\<rparr> =
     Inr header_only_box"
  by (simp add: convert_dates_def getitem_def to_datetime_def setitem_def header_only_box_def)

lemma header_only_load:
  "load_tables mini header_only_fs = Inr (header_only_box, scenario_org)"
  by (simp add: load_tables_def header_only_reads header_only_convert scenario_converts)

lemma bad_date_reads:
  "read_csv mini bad_date_fs box_plot_csv = Inr bad_date_box_raw"
  "read_csv mini bad_date_fs org_data_csv = Inr bad_date_org_raw"
  by code_simp+

lemma not_a_date: "parse_date mini (Text ''not-a-date'') = Unparseable"
  by (simp add: mini_simps not_a_date_text)

lemma padded_reads:
  "read_csv mini padded_fs box_plot_csv = Inr padded_box_raw"
  "read_csv mini padded_fs org_data_csv = Inr padded_org_raw"
  by code_simp+

lemma padded_converts:
  "convert_dates mini padded_box_raw = Inr padded_box"
  "convert_dates mini padded_org_raw = Inr padded_org"
  by (simp_all add: convert_dates_def getitem_def to_datetime_def setitem_def keep_raw_def
      padded_box_raw_def padded_org_raw_def padded_box_def padded_org_def mini_simps parse_dates)

lemma padded_load: "load_tables mini padded_fs = Inr (padded_box, padded_org)"
  by (simp add: load_tables_def padded_reads padded_converts)

lemma padded_period_set: "row_period ` set (rows padded_box) = {Some (2024, 1)}"
  by (simp add: padded_box_def row_period_def to_period_def)

lemma padded_months: "py_sorted (box_plot_months padded_box) = [Some (2024, 1)]"
  by (simp add: box_plot_months_def padded_box_def row_period_def to_period_def py_sorted_def
      unique_def)

lemma padded_files:
  "format_csv mini (select_month padded_box (2024, 1)) =
     ''execution_date,median\<newline>2024-01-05,7\<newline>''"
  "format_csv mini (select_month padded_org (2024, 1)) =
     ''execution_date,org\<newline>2024-01-05 12:30:00,acme\<newline>''"
  by (simp_all add: select_month_def padded_box_def padded_org_def row_period_def to_period_def
      mini_simps mini_format_csv_def format_date_def format_time_def two_digits_def dec_numeral
      dec.simps [of "Suc 0"] dec.simps [of 0] digit_simps newline_def)

lemma padded_no_dir: "\<forall>bytes. padded_fs monthly_dir \<noteq> Some (File bytes)"
  by (simp add: padded_fs_def monthly_dir_def)

lemma padded_run: "split_data_by_month mini padded_fs = Inr padded_out"
proof (rule run_eq [OF padded_load padded_no_dir padded_months])
  let ?fs1 = "padded_fs(monthly_dir \<mapsto> Dir)"
  have "monthly_loop mini padded_box padded_org [Some (2024, 1)] ?fs1 =
        monthly_loop mini padded_box padded_org []
          (?fs1(box_plot_path (2024, 1) \<mapsto> File (format_csv mini (select_month padded_box (2024, 1))),
                org_data_path (2024, 1) \<mapsto> File (format_csv mini (select_month padded_org (2024, 1)))))"
    by (rule loop_step) (simp_all only: path_2024, simp_all add: padded_fs_def)
  also have "\<dots> = Inr padded_out"
    by (simp only: monthly_loop.simps path_2024 padded_files padded_out_def)
  finally show "monthly_loop mini padded_box padded_org [Some (2024, 1)] ?fs1 = Inr padded_out" .
qed

subsection \<open>The inputs with a row without a date\<close>

lemma missing_reads:
  "read_csv mini missing_box_fs box_plot_csv = Inr missing_box_raw"
  "read_csv mini missing_box_fs org_data_csv = Inr single_org_raw"
  "read_csv mini missing_org_fs box_plot_csv = Inr single_box_raw"
  "read_csv mini missing_org_fs org_data_csv = Inr missing_org_raw"
  by code_simp+

lemma missing_converts:
  "convert_dates mini missing_box_raw = Inr missing_box"
  "convert_dates mini single_box_raw = Inr single_box"
  "convert_dates mini single_org_raw = Inr single_org"
  "convert_dates mini missing_org_raw = Inr missing_org"
  by (simp_all add: convert_dates_def getitem_def to_datetime_def setitem_def keep_raw_def
      missing_box_raw_def single_box_raw_def single_org_raw_def missing_org_raw_def
      missing_box_def single_box_def single_org_def missing_org_def mini_simps parse_dates)

lemma missing_loads:
  "load_tables mini missing_box_fs = Inr (missing_box, single_org)"
  "load_tables mini missing_org_fs = Inr (single_box, missing_org)"
  by (simp_all add: load_tables_def missing_reads missing_converts)

lemma missing_months:
  "py_sorted (box_plot_months missing_box) = [Some (2024, 1), None]"
  "py_sorted (box_plot_months single_box) = [Some (2024, 1)]"
  by (simp_all add: box_plot_months_def missing_box_def single_box_def row_period_def
      to_period_def py_sorted_def unique_def)

lemma missing_files:
  "format_csv mini (select_month missing_box (2024, 1)) =
     ''execution_date,median\<newline>2024-01-05,10\<newline>''"
  "format_csv mini (select_month single_box (2024, 1)) =
     ''execution_date,median\<newline>2024-01-05,10\<newline>''"
  "format_csv mini (select_month single_org (2024, 1)) =
     ''execution_date,org\<newline>2024-01-05,acme\<newline>''"
  "format_csv mini (select_month missing_org (2024, 1)) =
     ''execution_date,org\<newline>2024-01-05,acme\<newline>''"
  by (simp_all add: select_month_def missing_box_def single_box_def single_org_def
      missing_org_def row_period_def to_period_def mini_simps mini_format_csv_def
      format_date_def two_digits_def dec_numeral dec.simps [of "Suc 0"] digit_simps newline_def)

lemma missing_no_dir:
  "\<forall>bytes. missing_box_fs monthly_dir \<noteq> Some (File bytes)"
  "\<forall>bytes. missing_org_fs monthly_dir \<noteq> Some (File bytes)"
  by (simp_all add: missing_box_fs_def missing_org_fs_def monthly_dir_def)

lemma missing_box_run:
  "split_data_by_month mini missing_box_fs = Inl (ValueError ''strftime'', missing_box_out)"
proof (rule run_eq [OF missing_loads(1) missing_no_dir(1) missing_months(1)])
  let ?fs1 = "missing_box_fs(monthly_dir \<mapsto> Dir)"
  have "monthly_loop mini missing_box single_org [Some (2024, 1), None] ?fs1 =
        monthly_loop mini missing_box single_org [None]
          (?fs1(box_plot_path (2024, 1) \<mapsto> File (format_csv mini (select_month missing_box (2024, 1))),
                org_data_path (2024, 1) \<mapsto> File (format_csv mini (select_month single_org (2024, 1)))))"
    by (rule loop_step) (simp_all only: path_2024, simp_all add: missing_box_fs_def)
  also have "\<dots> = Inl (ValueError ''strftime'', missing_box_out)"
    by (simp only: monthly_loop.simps path_2024 missing_files missing_box_out_def)
  finally show "monthly_loop mini missing_box single_org [Some (2024, 1), None] ?fs1 =
    Inl (ValueError ''strftime'', missing_box_out)" .
qed

lemma missing_org_run: "split_data_by_month mini missing_org_fs = Inr missing_org_out"
proof (rule run_eq [OF missing_loads(2) missing_no_dir(2) missing_months(2)])
  let ?fs1 = "missing_org_fs(monthly_dir \<mapsto> Dir)"
  have "monthly_loop mini single_box missing_org [Some (2024, 1)] ?fs1 =
        monthly_loop mini single_box missing_org []
          (?fs1(box_plot_path (2024, 1) \<mapsto> File (format_csv mini (select_month single_box (2024, 1))),
                org_data_path (2024, 1) \<mapsto> File (format_csv mini (select_month missing_org (2024, 1)))))"
    by (rule loop_step) (simp_all only: path_2024, simp_all add: missing_org_fs_def)
  also have "\<dots> = Inr missing_org_out"
    by (simp only: monthly_loop.simps path_2024 missing_files missing_org_out_def)
  finally show "monthly_loop mini single_box missing_org [Some (2024, 1)] ?fs1 =
    Inr missing_org_out" .
qed

section \<open>The claims\<close>

text \<open>
  C1 (completeness). After a run that succeeds, every row of the first table has a
  year-month; the file \<open>box_plot_{YYYY-MM}.csv\<close> of that month holds the table's rows of
  the month with the table's columns, the row among them as often as it is in the
  table; the file of any other month has another name and does not hold the row.
\<close>

theorem box_plot_completeness:
  assumes "load_tables L fs = Inr (A, B)"
    and "split_data_by_month L fs = Inr fs'"
    and "r \<in> set (rows A)"
  shows "\<exists>q. row_period r = Some q \<and>
           fs' (box_plot_path q) = Some (File (format_csv L (select_month A q))) \<and>
           columns (select_month A q) = columns A \<and>
           r \<in> set (rows (select_month A q)) \<and>
           count_list (rows (select_month A q)) r = count_list (rows A) r \<and>
           (\<forall>q'. q' \<noteq> q \<longrightarrow>
              box_plot_path q' \<noteq> box_plot_path q \<and> r \<notin> set (rows (select_month A q')))"
proof -
  note s = run_summary [OF assms(1,2)]
  from s(1) assms(3) obtain q where q: "row_period r = Some q"
    by (cases "row_period r") force+
  with assms(3) have "Some q \<in> row_period ` set (rows A)" by force
  from s(2) [OF this] have "fs' (box_plot_path q) = Some (File (format_csv L (select_month A q)))"
    by simp
  moreover have "count_list (rows (select_month A q)) r = count_list (rows A) r"
    unfolding select_month_rows using q by (rule count_list_filter)
  moreover have "box_plot_path q' \<noteq> box_plot_path q \<and> r \<notin> set (rows (select_month A q'))"
    if "q' \<noteq> q" for q'
    using that q by (auto simp: select_month_rows dest: box_plot_path_inj)
  ultimately show ?thesis using q assms(3) by (auto simp: select_month_rows select_month_columns)
qed

theorem box_plot_completeness_witness:
  "load_tables mini scenario_fs = Inr (scenario_box, scenario_org) \<and>
   split_data_by_month mini scenario_fs = Inr scenario_out \<and>
   box_row3 \<in> set (rows scenario_box) \<and>
   (\<exists>q. row_period box_row3 = Some q \<and>
      scenario_out (box_plot_path q) = Some (File (format_csv mini (select_month scenario_box q))) \<and>
      columns (select_month scenario_box q) = columns scenario_box \<and>
      box_row3 \<in> set (rows (select_month scenario_box q)) \<and>
      count_list (rows (select_month scenario_box q)) box_row3 =
        count_list (rows scenario_box) box_row3 \<and>
      (\<forall>q'. q' \<noteq> q \<longrightarrow>
         box_plot_path q' \<noteq> box_plot_path q \<and>
         box_row3 \<notin> set (rows (select_month scenario_box q'))))"
proof -
  have m: "box_row3 \<in> set (rows scenario_box)" by (simp add: scenario_box_def)
  from box_plot_completeness [OF scenario_load scenario_run m] scenario_load scenario_run m
  show ?thesis by (intro conjI)
qed



text \<open>
  C3 (filtering of the second table). After a run that succeeds, a row of the second
  table whose year-month is not one of the first table's (a row without a date
  included) is in none of the \<open>org_data\<close> files, and no file beyond those of the first
  table's periods is written. The row raises nothing: the loop does the same, from any
  file system, on the second table without that row.
\<close>

theorem org_rows_outside_dropped:
  assumes "load_tables L fs = Inr (A, B)"
    and "split_data_by_month L fs = Inr fs'"
    and "r \<in> set (rows B)"
    and "row_period r \<notin> row_period ` set (rows A)"
  shows "(\<forall>q. Some q \<in> row_period ` set (rows A) \<longrightarrow>
            fs' (org_data_path q) = Some (File (format_csv L (select_month B q))) \<and>
            r \<notin> set (rows (select_month B q))) \<and>
         (\<forall>p. (\<forall>q. Some q \<in> row_period ` set (rows A) \<longrightarrow>
                  p \<noteq> box_plot_path q \<and> p \<noteq> org_data_path q) \<longrightarrow>
              fs' p = (fs(monthly_dir \<mapsto> Dir)) p) \<and>
         (\<forall>fs0. monthly_loop L A (B\<lparr>rows := filter (\<lambda>x. x \<noteq> r) (rows B)\<rparr>)
                  (py_sorted (box_plot_months A)) fs0 =
                monthly_loop L A B (py_sorted (box_plot_months A)) fs0)"
proof -
  note s = run_summary [OF assms(1,2)]
  have a: "fs' (org_data_path q) = Some (File (format_csv L (select_month B q))) \<and>
           r \<notin> set (rows (select_month B q))"
    if "Some q \<in> row_period ` set (rows A)" for q
  proof -
    from that assms(4) have "row_period r \<noteq> Some q" by metis
    then show ?thesis using s(2) [OF that] by (simp add: select_month_rows)
  qed
  have b: "fs' p = (fs(monthly_dir \<mapsto> Dir)) p"
    if "\<forall>q. Some q \<in> row_period ` set (rows A) \<longrightarrow> p \<noteq> box_plot_path q \<and> p \<noteq> org_data_path q"
    for p
    using that by (intro s(3)) blast
  have c: "monthly_loop L A (B\<lparr>rows := filter (\<lambda>x. x \<noteq> r) (rows B)\<rparr>)
             (py_sorted (box_plot_months A)) fs0 =
           monthly_loop L A B (py_sorted (box_plot_months A)) fs0" for fs0
  proof (rule loop_cong)
    fix q assume "Some q \<in> set (py_sorted (box_plot_months A))"
    then have "Some q \<in> row_period ` set (rows A)"
      by (simp add: set_py_sorted box_plot_months_def set_unique)
    with assms(4) have "row_period r \<noteq> Some q" by metis
    then show "select_month (B\<lparr>rows := filter (\<lambda>x. x \<noteq> r) (rows B)\<rparr>) q = select_month B q"
      by (rule select_month_without)
  qed
  from a b c show ?thesis by blast
qed

theorem org_rows_outside_dropped_witness:
  "load_tables mini scenario_fs = Inr (scenario_box, scenario_org) \<and>
   split_data_by_month mini scenario_fs = Inr scenario_out \<and>
   org_row2 \<in> set (rows scenario_org) \<and>
   row_period org_row2 \<notin> row_period ` set (rows scenario_box) \<and>
   Some (2024, 1) \<in> row_period ` set (rows scenario_box) \<and>
   scenario_out (org_data_path (2024, 1)) =
     Some (File (format_csv mini (select_month scenario_org (2024, 1)))) \<and>
   org_row2 \<notin> set (rows (select_month scenario_org (2024, 1))) \<and>
   Some (2024, 2) \<in> row_period ` set (rows scenario_box) \<and>
   scenario_out (org_data_path (2024, 2)) =
     Some (File (format_csv mini (select_month scenario_org (2024, 2)))) \<and>
   org_row2 \<notin> set (rows (select_month scenario_org (2024, 2))) \<and>
   scenario_out (org_data_path (2024, 3)) =
     (scenario_fs(monthly_dir \<mapsto> Dir)) (org_data_path (2024, 3)) \<and>
   (\<forall>fs0. monthly_loop mini scenario_box
            (scenario_org\<lparr>rows := filter (\<lambda>x. x \<noteq> org_row2) (rows scenario_org)\<rparr>)
            (py_sorted (box_plot_months scenario_box)) fs0 =
          monthly_loop mini scenario_box scenario_org
            (py_sorted (box_plot_months scenario_box)) fs0)"
proof -
  have m: "org_row2 \<in> set (rows scenario_org)" by (simp add: scenario_org_def)
  have n: "row_period org_row2 \<notin> row_period ` set (rows scenario_box)"
    unfolding scenario_period_set scenario_periods by simp
  have p1: "Some (2024, 1) \<in> row_period ` set (rows scenario_box)"
    and p2: "Some (2024, 2) \<in> row_period ` set (rows scenario_box)"
    unfolding scenario_period_set by simp_all
  have other: "\<forall>q. Some q \<in> row_period ` set (rows scenario_box) \<longrightarrow>
      org_data_path (2024, 3) \<noteq> box_plot_path q \<and> org_data_path (2024, 3) \<noteq> org_data_path q"
    unfolding scenario_period_set
    by (auto simp: box_not_org [symmetric] dest!: org_data_path_inj)
  note t = org_rows_outside_dropped [OF scenario_load scenario_run m n]
  note ta = t [THEN conjunct1, rule_format]
  note tb = t [THEN conjunct2, THEN conjunct1, THEN spec, THEN mp]
  note tc = t [THEN conjunct2, THEN conjunct2]
  note a1 = ta [OF p1, THEN conjunct1] and a2 = ta [OF p1, THEN conjunct2]
  note a3 = ta [OF p2, THEN conjunct1] and a4 = ta [OF p2, THEN conjunct2]
  have b: "scenario_out (org_data_path (2024, 3)) =
      (scenario_fs(monthly_dir \<mapsto> Dir)) (org_data_path (2024, 3))" by (rule tb) (rule other)
  from scenario_load scenario_run m n p1 a1 a2 p2 a3 a4 b tc
  show ?thesis by (intro conjI)
qed

text \<open>
  C4, as stated, fails on a date that is missing. A missing value is not rejected by
  \<open>to_datetime\<close>: it becomes NaT. With the small pandas, a first table whose second row
  has an empty date makes the run create \<open>public/monthly\<close>, write both files of 2024-01
  and then end in the \<open>ValueError\<close> of \<open>strftime\<close> on NaT (the periods are 2024-01 and
  NaT, in that order before and after sorting); a second table whose second
  row has an empty date lets the run succeed, the row being in no file.
\<close>

theorem missing_date_not_rejected:
  "missing_box_fs box_plot_csv =
     Some (File ''execution_date,median\<newline>2024-01-05,10\<newline>,20\<newline>'') \<and>
   missing_box_fs ''public/monthly'' = None \<and>
   missing_box_fs ''public/monthly/box_plot_2024-01.csv'' = None \<and>
   split_data_by_month mini missing_box_fs = Inl (ValueError ''strftime'', missing_box_out) \<and>
   missing_box_out ''public/monthly'' = Some Dir \<and>
   missing_box_out ''public/monthly/box_plot_2024-01.csv'' =
     Some (File ''execution_date,median\<newline>2024-01-05,10\<newline>'') \<and>
   missing_org_fs org_data_csv =
     Some (File ''execution_date,org\<newline>2024-01-05,acme\<newline>,umbrella\<newline>'') \<and>
   split_data_by_month mini missing_org_fs = Inr missing_org_out \<and>
   missing_org_out ''public/monthly/org_data_2024-01.csv'' =
     Some (File ''execution_date,org\<newline>2024-01-05,acme\<newline>'')"
proof (intro conjI)
  show "missing_box_fs box_plot_csv =
     Some (File ''execution_date,median\<newline>2024-01-05,10\<newline>,20\<newline>'')"
    by (simp add: missing_box_fs_def box_plot_csv_def)
  show "missing_box_fs ''public/monthly'' = None" by (simp add: missing_box_fs_def)
  show "missing_box_fs ''public/monthly/box_plot_2024-01.csv'' = None"
    by (simp add: missing_box_fs_def)
  show "split_data_by_month mini missing_box_fs = Inl (ValueError ''strftime'', missing_box_out)"
    by (rule missing_box_run)
  show "missing_box_out ''public/monthly'' = Some Dir" by (simp add: missing_box_out_def)
  show "missing_box_out ''public/monthly/box_plot_2024-01.csv'' =
     Some (File ''execution_date,median\<newline>2024-01-05,10\<newline>'')"
    by (simp add: missing_box_out_def)
  show "missing_org_fs org_data_csv =
     Some (File ''execution_date,org\<newline>2024-01-05,acme\<newline>,umbrella\<newline>'')"
    by (simp add: missing_org_fs_def org_data_csv_def)
  show "split_data_by_month mini missing_org_fs = Inr missing_org_out" by (rule missing_org_run)
  show "missing_org_out ''public/monthly/org_data_2024-01.csv'' =
     Some (File ''execution_date,org\<newline>2024-01-05,acme\<newline>'')"
    by (simp add: missing_org_out_def)
qed

text \<open>
  C4, amended (with \<open>to_datetime\<close> modelled from the specification). When both files
  are read, both have the column, and some value present in the column of either table
  is rejected by the date parser, the run ends in a \<open>DateParseError\<close> that carries a
  row index of one of the two tables and the raw value found there, which is one the
  parser rejects; the file system is the one the run started from: no directory made,
  no file written. A missing value is not rejected.
\<close>

theorem parse_error_before_output:
  assumes "read_csv L fs box_plot_csv = Inr A0"
    and "read_csv L fs org_data_csv = Inr B0"
    and "''execution_date'' \<in> set (columns A0)"
    and "''execution_date'' \<in> set (columns B0)"
    and "\<exists>r\<in>set (rows A0) \<union> set (rows B0).
           \<exists>v. map_of r ''execution_date'' = Some v \<and> parse_date L v = Unparseable"
  shows "\<exists>df i v. (df = A0 \<or> df = B0) \<and> i < length (rows df) \<and>
           map_of (rows df ! i) ''execution_date'' = Some v \<and>
           parse_date L v = Unparseable \<and>
           split_data_by_month L fs = Inl (DateParseError i v, fs)"
proof (cases "convert_dates L A0")
  case (Inl e)
  from convert_dates_Inl [OF assms(3) Inl] obtain i v where
    iv: "i < length (rows A0)" "map_of (rows A0 ! i) ''execution_date'' = Some v"
      "parse_date L v = Unparseable" "e = DateParseError i v" by blast
  from assms(1,2) Inl have "split_data_by_month L fs = Inl (e, fs)"
    by (simp add: split_data_by_month_def load_tables_def)
  with iv show ?thesis by blast
next
  case a: (Inr A)
  from convert_dates_Inr(4) [OF a] assms(5) obtain r v where
    r: "r \<in> set (rows B0)" "map_of r ''execution_date'' = Some v" "parse_date L v = Unparseable"
    by blast
  show ?thesis
  proof (cases "convert_dates L B0")
    case (Inl e)
    from convert_dates_Inl [OF assms(4) Inl] obtain i v where
      iv: "i < length (rows B0)" "map_of (rows B0 ! i) ''execution_date'' = Some v"
        "parse_date L v = Unparseable" "e = DateParseError i v" by blast
    from assms(1,2) a Inl have "split_data_by_month L fs = Inl (e, fs)"
      by (simp add: split_data_by_month_def load_tables_def)
    with iv show ?thesis by blast
  next
    case (Inr B)
    from convert_dates_Inr(4) [OF Inr] r show ?thesis by blast
  qed
qed

theorem parse_error_before_output_witness:
  "read_csv mini bad_date_fs box_plot_csv = Inr bad_date_box_raw \<and>
   read_csv mini bad_date_fs org_data_csv = Inr bad_date_org_raw \<and>
   ''execution_date'' \<in> set (columns bad_date_box_raw) \<and>
   ''execution_date'' \<in> set (columns bad_date_org_raw) \<and>
   (\<exists>r\<in>set (rows bad_date_box_raw) \<union> set (rows bad_date_org_raw).
      \<exists>v. map_of r ''execution_date'' = Some v \<and> parse_date mini v = Unparseable) \<and>
   (\<exists>df i v. (df = bad_date_box_raw \<or> df = bad_date_org_raw) \<and> i < length (rows df) \<and>
      map_of (rows df ! i) ''execution_date'' = Some v \<and>
      parse_date mini v = Unparseable \<and>
      split_data_by_month mini bad_date_fs = Inl (DateParseError i v, bad_date_fs))"
proof -
  have c1: "''execution_date'' \<in> set (columns bad_date_box_raw)"
    by (simp add: bad_date_box_raw_def)
  have c2: "''execution_date'' \<in> set (columns bad_date_org_raw)"
    by (simp add: bad_date_org_raw_def)
  have "[(''execution_date'', Text ''not-a-date''), (''median'', Number 20)]
          \<in> set (rows bad_date_box_raw) \<union> set (rows bad_date_org_raw)"
    by (simp add: bad_date_box_raw_def)
  moreover have "map_of [(''execution_date'', Text ''not-a-date''), (''median'', Number 20)]
      ''execution_date'' = Some (Text ''not-a-date'')" by simp
  ultimately have b: "\<exists>r\<in>set (rows bad_date_box_raw) \<union> set (rows bad_date_org_raw).
      \<exists>v. map_of r ''execution_date'' = Some v \<and> parse_date mini v = Unparseable"
    using not_a_date by blast
  from parse_error_before_output [OF bad_date_reads c1 c2 b] bad_date_reads c1 c2 b
  show ?thesis by (intro conjI)
qed

text \<open>
  C5 (idempotence). A run that succeeds leaves a file system on which a second run
  succeeds and changes nothing: the inputs are not among the paths written, the
  directory is there, and every file is written again with the same bytes.
\<close>

theorem rerun_idempotent:
  assumes "split_data_by_month L fs = Inr fs'"
  shows "split_data_by_month L fs' = Inr fs'"
proof -
  from run_Inr [OF assms] obtain A B where l: "load_tables L fs = Inr (A, B)" by blast
  note s = run_summary [OF l assms]
  define qs where "qs = sort (map the (box_plot_months A))"
  have months: "py_sorted (box_plot_months A) = map Some qs"
    and qs: "set qs = {q. Some q \<in> row_period ` set (rows A)}"
    unfolding qs_def by (rule s(4), rule s(5))
  have "fs' box_plot_csv = (fs(monthly_dir \<mapsto> Dir)) box_plot_csv"
    by (rule s(3)) (simp add: inputs_not_outputs)
  then have in1: "fs' box_plot_csv = fs box_plot_csv"
    using paths_not_input(5) by simp
  have "fs' org_data_csv = (fs(monthly_dir \<mapsto> Dir)) org_data_csv"
    by (rule s(3)) (simp add: inputs_not_outputs)
  then have in2: "fs' org_data_csv = fs org_data_csv"
    using paths_not_input(6) by simp
  have "fs' monthly_dir = (fs(monthly_dir \<mapsto> Dir)) monthly_dir"
    by (rule s(3)) (simp add: inputs_not_outputs)
  then have dir: "fs' monthly_dir = Some Dir" by simp
  have l': "load_tables L fs' = Inr (A, B)"
    using load_tables_local [of fs' fs L, OF in1 in2] l by simp
  have written: "fs' (box_plot_path q) = Some (File (format_csv L (select_month A q)))"
    "fs' (org_data_path q) = Some (File (format_csv L (select_month B q)))"
    if "q \<in> set qs" for q
  proof -
    from that qs have "Some q \<in> row_period ` set (rows A)" by simp
    from s(2) [OF this]
    show "fs' (box_plot_path q) = Some (File (format_csv L (select_month A q)))"
      and "fs' (org_data_path q) = Some (File (format_csv L (select_month B q)))" by simp_all
  qed
  have "\<forall>q\<in>set qs. fs' (box_plot_path q) \<noteq> Some Dir \<and> fs' (org_data_path q) \<noteq> Some Dir"
  proof
    fix q assume "q \<in> set qs"
    from written [OF this]
    show "fs' (box_plot_path q) \<noteq> Some Dir \<and> fs' (org_data_path q) \<noteq> Some Dir" by simp
  qed
  from loop_succeeds [OF this] obtain fs'' where
    again: "monthly_loop L A B (map Some qs) fs' = Inr fs''" by blast
  from loop_result [OF again]
  have res1: "\<forall>q\<in>set qs.
        fs'' (box_plot_path q) = Some (File (format_csv L (select_month A q))) \<and>
        fs'' (org_data_path q) = Some (File (format_csv L (select_month B q)))"
    and res2: "\<forall>p. p \<notin> box_plot_path ` set qs \<union> org_data_path ` set qs \<longrightarrow> fs'' p = fs' p"
    by (rule conjunct1, rule conjunct2)
  have "fs'' p = fs' p" for p
  proof (cases "p \<in> box_plot_path ` set qs \<union> org_data_path ` set qs")
    case True
    then consider q where "q \<in> set qs" "p = box_plot_path q"
      | q where "q \<in> set qs" "p = org_data_path q" by blast
    then show ?thesis
    proof cases
      case 1
      from 1(1) res1 have "fs'' (box_plot_path q) = Some (File (format_csv L (select_month A q)))"
        by blast
      with written(1) [OF 1(1)] 1(2) show ?thesis by simp
    next
      case 2
      from 2(1) res1 have "fs'' (org_data_path q) = Some (File (format_csv L (select_month B q)))"
        by blast
      with written(2) [OF 2(1)] 2(2) show ?thesis by simp
    qed
  next
    case False
    with res2 show ?thesis by blast
  qed
  then have "fs'' = fs'" by (rule ext)
  with again have "monthly_loop L A B (map Some qs) fs' = Inr fs'" by (simp only:)
  then have loop: "monthly_loop L A B (py_sorted (box_plot_months A)) fs' = Inr fs'"
    by (simp only: months)
  show ?thesis
    unfolding split_data_by_month_def by (simp add: l' mkdir_Dir [of fs' monthly_dir, OF dir] loop)
qed

theorem rerun_idempotent_witness:
  "split_data_by_month mini scenario_fs = Inr scenario_out \<and>
   split_data_by_month mini scenario_out = Inr scenario_out"
  using rerun_idempotent [OF scenario_run] scenario_run by (intro conjI)

text \<open>
  C6 (row order). After a run that succeeds, the file of each period holds, for both
  tables, the rows of the table that the filter keeps, in the order of the table.
\<close>

theorem row_order_preserved:
  assumes "load_tables L fs = Inr (A, B)"
    and "split_data_by_month L fs = Inr fs'"
    and "Some q \<in> row_period ` set (rows A)"
  shows "fs' (box_plot_path q) = Some (File (format_csv L (select_month A q))) \<and>
         rows (select_month A q) = filter (\<lambda>r. row_period r = Some q) (rows A) \<and>
         subseq (rows (select_month A q)) (rows A) \<and>
         fs' (org_data_path q) = Some (File (format_csv L (select_month B q))) \<and>
         rows (select_month B q) = filter (\<lambda>r. row_period r = Some q) (rows B) \<and>
         subseq (rows (select_month B q)) (rows B)"
  using run_summary(2) [OF assms] by (simp add: select_month_rows)

theorem row_order_preserved_witness:
  "load_tables mini scenario_fs = Inr (scenario_box, scenario_org) \<and>
   split_data_by_month mini scenario_fs = Inr scenario_out \<and>
   Some (2024, 1) \<in> row_period ` set (rows scenario_box) \<and>
   scenario_out (box_plot_path (2024, 1)) =
     Some (File (format_csv mini (select_month scenario_box (2024, 1)))) \<and>
   rows (select_month scenario_box (2024, 1)) =
     filter (\<lambda>r. row_period r = Some (2024, 1)) (rows scenario_box) \<and>
   subseq (rows (select_month scenario_box (2024, 1))) (rows scenario_box) \<and>
   scenario_out (org_data_path (2024, 1)) =
     Some (File (format_csv mini (select_month scenario_org (2024, 1)))) \<and>
   rows (select_month scenario_org (2024, 1)) =
     filter (\<lambda>r. row_period r = Some (2024, 1)) (rows scenario_org) \<and>
   subseq (rows (select_month scenario_org (2024, 1))) (rows scenario_org)"
proof -
  have m: "Some (2024, 1) \<in> row_period ` set (rows scenario_box)"
    unfolding scenario_period_set by (rule insertI1)
  from row_order_preserved [OF scenario_load scenario_run m] scenario_load scenario_run m
  show ?thesis by (intro conjI) blast+
qed

text \<open>
  C7 (empty input). When both tables load, the first has no rows and no regular file
  is in the way of the directory, there are no periods, and the run succeeds having
  only made sure that \<open>public/monthly\<close> is a directory: no file is written, whatever the
  second table holds.
\<close>

theorem empty_box_plot_table:
  assumes "load_tables L fs = Inr (A, B)"
    and "rows A = []"
    and "\<forall>bytes. fs monthly_dir \<noteq> Some (File bytes)"
  shows "box_plot_months A = [] \<and> split_data_by_month L fs = Inr (fs(monthly_dir \<mapsto> Dir))"
proof -
  from assms(2) have m: "box_plot_months A = []" by (simp add: box_plot_months_def unique_def)
  with assms(1,3) show ?thesis
    by (simp add: split_data_by_month_def mkdir_succeeds py_sorted_Nil)
qed

theorem empty_box_plot_table_witness:
  "load_tables mini header_only_fs = Inr (header_only_box, scenario_org) \<and>
   rows header_only_box = [] \<and>
   rows scenario_org \<noteq> [] \<and>
   (\<forall>bytes. header_only_fs monthly_dir \<noteq> Some (File bytes)) \<and>
   box_plot_months header_only_box = [] \<and>
   split_data_by_month mini header_only_fs = Inr (header_only_fs(monthly_dir \<mapsto> Dir))"
proof -
  have e: "rows header_only_box = []" by (simp add: header_only_box_def)
  have n: "rows scenario_org \<noteq> []" by (simp add: scenario_org_def)
  have d: "\<forall>bytes. header_only_fs monthly_dir \<noteq> Some (File bytes)"
    by (simp add: header_only_fs_def monthly_dir_def)
  from empty_box_plot_table [OF header_only_load e d] header_only_load e n d
  show ?thesis by (intro conjI) blast+
qed

text \<open>
  C8 (the scenario). The first table has three rows dated 2024-01-05, 2024-01-20 and
  2024-02-10, the second two rows dated 2024-01-05 and 2024-03-01, and nothing stands
  in the way of the directory and of the four files. Then the run succeeds, and the
  file system after it differs from the one before in \<open>public/monthly\<close> and four files:
  \<open>box_plot_2024-01.csv\<close> with the first two rows, \<open>org_data_2024-01.csv\<close> with one row,
  \<open>box_plot_2024-02.csv\<close> with one row and \<open>org_data_2024-02.csv\<close> with the header alone.
  Nothing is written for 2024-03.
\<close>

theorem scenario_two_months:
  assumes "load_tables L fs = Inr (A, B)"
    and "rows A = [a1, a2, a3]"
    and "rows B = [b1, b2]"
    and "map_of a1 ''execution_date'' = Some (Timestamp \<lparr>year = 2024, month = 1, day = 5, tod = 0\<rparr>)"
    and "map_of a2 ''execution_date'' = Some (Timestamp \<lparr>year = 2024, month = 1, day = 20, tod = 0\<rparr>)"
    and "map_of a3 ''execution_date'' = Some (Timestamp \<lparr>year = 2024, month = 2, day = 10, tod = 0\<rparr>)"
    and "map_of b1 ''execution_date'' = Some (Timestamp \<lparr>year = 2024, month = 1, day = 5, tod = 0\<rparr>)"
    and "map_of b2 ''execution_date'' = Some (Timestamp \<lparr>year = 2024, month = 3, day = 1, tod = 0\<rparr>)"
    and "\<forall>bytes. fs ''public/monthly'' \<noteq> Some (File bytes)"
    and "fs ''public/monthly/box_plot_2024-01.csv'' \<noteq> Some Dir"
    and "fs ''public/monthly/org_data_2024-01.csv'' \<noteq> Some Dir"
    and "fs ''public/monthly/box_plot_2024-02.csv'' \<noteq> Some Dir"
    and "fs ''public/monthly/org_data_2024-02.csv'' \<noteq> Some Dir"
  shows "split_data_by_month L fs =
           Inr (fs(''public/monthly'' \<mapsto> Dir,
                   ''public/monthly/box_plot_2024-01.csv'' \<mapsto>
                     File (format_csv L (A\<lparr>rows := [a1, a2]\<rparr>)),
                   ''public/monthly/org_data_2024-01.csv'' \<mapsto>
                     File (format_csv L (B\<lparr>rows := [b1]\<rparr>)),
                   ''public/monthly/box_plot_2024-02.csv'' \<mapsto>
                     File (format_csv L (A\<lparr>rows := [a3]\<rparr>)),
                   ''public/monthly/org_data_2024-02.csv'' \<mapsto>
                     File (format_csv L (B\<lparr>rows := []\<rparr>))))"
proof -
  have p: "row_period a1 = Some (2024, 1)" "row_period a2 = Some (2024, 1)"
    "row_period a3 = Some (2024, 2)" "row_period b1 = Some (2024, 1)"
    "row_period b2 = Some (2024, 3)"
    by (simp_all add: row_period_def to_period_def assms(4-8))
  have "box_plot_months A = unique [Some (2024, 1), Some (2024, 1), Some (2024, 2)]"
    unfolding box_plot_months_def assms(2) by (simp only: list.map p)
  then have months: "py_sorted (box_plot_months A) = [Some (2024, 1), Some (2024, 2)]"
    by (simp only: months_2024)
  have sel: "select_month A (2024, 1) = A\<lparr>rows := [a1, a2]\<rparr>"
    "select_month B (2024, 1) = B\<lparr>rows := [b1]\<rparr>"
    "select_month A (2024, 2) = A\<lparr>rows := [a3]\<rparr>"
    "select_month B (2024, 2) = B\<lparr>rows := []\<rparr>"
    by (simp_all add: select_month_def assms(2,3) p)
  let ?fs1 = "fs(monthly_dir \<mapsto> Dir)"
  let ?fs2 = "?fs1(box_plot_path (2024, 1) \<mapsto> File (format_csv L (select_month A (2024, 1))),
                  org_data_path (2024, 1) \<mapsto> File (format_csv L (select_month B (2024, 1))))"
  let ?fs3 = "?fs2(box_plot_path (2024, 2) \<mapsto> File (format_csv L (select_month A (2024, 2))),
                  org_data_path (2024, 2) \<mapsto> File (format_csv L (select_month B (2024, 2))))"
  have nd: "\<forall>bytes. fs monthly_dir \<noteq> Some (File bytes)"
    unfolding path_2024(1) by (rule assms(9))
  have "monthly_loop L A B [Some (2024, 1), Some (2024, 2)] ?fs1 =
        monthly_loop L A B [Some (2024, 2)] ?fs2"
    by (rule loop_step) (simp_all only: path_2024, simp_all add: assms(10,11))
  also have "\<dots> = monthly_loop L A B [] ?fs3"
    by (rule loop_step) (simp_all only: path_2024, simp_all add: assms(12,13))
  also have "\<dots> = Inr ?fs3" by (simp only: monthly_loop.simps)
  finally have "monthly_loop L A B [Some (2024, 1), Some (2024, 2)] ?fs1 = Inr ?fs3" .
  from run_eq [OF assms(1) nd months this] show ?thesis
    by (simp only: path_2024 sel)
qed

theorem scenario_two_months_witness:
  "load_tables mini scenario_fs = Inr (scenario_box, scenario_org) \<and>
   rows scenario_box = [box_row1, box_row2, box_row3] \<and>
   rows scenario_org = [org_row1, org_row2] \<and>
   map_of box_row1 ''execution_date'' =
     Some (Timestamp \<lparr>year = 2024, month = 1, day = 5, tod = 0\<rparr>) \<and>
   map_of box_row2 ''execution_date'' =
     Some (Timestamp \<lparr>year = 2024, month = 1, day = 20, tod = 0\<rparr>) \<and>
   map_of box_row3 ''execution_date'' =
     Some (Timestamp \<lparr>year = 2024, month = 2, day = 10, tod = 0\<rparr>) \<and>
   map_of org_row1 ''execution_date'' =
     Some (Timestamp \<lparr>year = 2024, month = 1, day = 5, tod = 0\<rparr>) \<and>
   map_of org_row2 ''execution_date'' =
     Some (Timestamp \<lparr>year = 2024, month = 3, day = 1, tod = 0\<rparr>) \<and>
   (\<forall>bytes. scenario_fs ''public/monthly'' \<noteq> Some (File bytes)) \<and>
   scenario_fs ''public/monthly/box_plot_2024-01.csv'' \<noteq> Some Dir \<and>
   scenario_fs ''public/monthly/org_data_2024-01.csv'' \<noteq> Some Dir \<and>
   scenario_fs ''public/monthly/box_plot_2024-02.csv'' \<noteq> Some Dir \<and>
   scenario_fs ''public/monthly/org_data_2024-02.csv'' \<noteq> Some Dir \<and>
   split_data_by_month mini scenario_fs =
     Inr (scenario_fs(''public/monthly'' \<mapsto> Dir,
            ''public/monthly/box_plot_2024-01.csv'' \<mapsto>
              File (format_csv mini (scenario_box\<lparr>rows := [box_row1, box_row2]\<rparr>)),
            ''public/monthly/org_data_2024-01.csv'' \<mapsto>
              File (format_csv mini (scenario_org\<lparr>rows := [org_row1]\<rparr>)),
            ''public/monthly/box_plot_2024-02.csv'' \<mapsto>
              File (format_csv mini (scenario_box\<lparr>rows := [box_row3]\<rparr>)),
            ''public/monthly/org_data_2024-02.csv'' \<mapsto>
              File (format_csv mini (scenario_org\<lparr>rows := []\<rparr>)))) \<and>
   format_csv mini (scenario_box\<lparr>rows := [box_row1, box_row2]\<rparr>) =
     ''execution_date,median\<newline>2024-01-05,10\<newline>2024-01-20,20\<newline>'' \<and>
   format_csv mini (scenario_org\<lparr>rows := [org_row1]\<rparr>) =
     ''execution_date,org\<newline>2024-01-05,acme\<newline>'' \<and>
   format_csv mini (scenario_box\<lparr>rows := [box_row3]\<rparr>) =
     ''execution_date,median\<newline>2024-02-10,30\<newline>'' \<and>
   format_csv mini (scenario_org\<lparr>rows := []\<rparr>) = ''execution_date,org\<newline>''"
proof -
  have ra: "rows scenario_box = [box_row1, box_row2, box_row3]" by (simp add: scenario_box_def)
  have rb: "rows scenario_org = [org_row1, org_row2]" by (simp add: scenario_org_def)
  have d: "map_of box_row1 ''execution_date'' =
      Some (Timestamp \<lparr>year = 2024, month = 1, day = 5, tod = 0\<rparr>)"
    "map_of box_row2 ''execution_date'' =
      Some (Timestamp \<lparr>year = 2024, month = 1, day = 20, tod = 0\<rparr>)"
    "map_of box_row3 ''execution_date'' =
      Some (Timestamp \<lparr>year = 2024, month = 2, day = 10, tod = 0\<rparr>)"
    "map_of org_row1 ''execution_date'' =
      Some (Timestamp \<lparr>year = 2024, month = 1, day = 5, tod = 0\<rparr>)"
    "map_of org_row2 ''execution_date'' =
      Some (Timestamp \<lparr>year = 2024, month = 3, day = 1, tod = 0\<rparr>)"
    by (simp_all add: box_row1_def box_row2_def box_row3_def org_row1_def org_row2_def)
  have f: "\<forall>bytes. scenario_fs ''public/monthly'' \<noteq> Some (File bytes)"
    "scenario_fs ''public/monthly/box_plot_2024-01.csv'' \<noteq> Some Dir"
    "scenario_fs ''public/monthly/org_data_2024-01.csv'' \<noteq> Some Dir"
    "scenario_fs ''public/monthly/box_plot_2024-02.csv'' \<noteq> Some Dir"
    "scenario_fs ''public/monthly/org_data_2024-02.csv'' \<noteq> Some Dir"
    by (simp_all add: scenario_fs_def)
  note t = scenario_texts
  from scenario_two_months [OF scenario_load ra rb d f] scenario_load ra rb d f t
  show ?thesis by (intro conjI)
qed

text \<open>
  C9 (completeness for the second table). After a run that succeeds, a row of the
  second table whose year-month is one of the first table's is in the \<open>org_data\<close> file
  of that month, as often as it is in the table, and in the file of no other month.
\<close>

theorem org_rows_inside_kept:
  assumes "load_tables L fs = Inr (A, B)"
    and "split_data_by_month L fs = Inr fs'"
    and "r \<in> set (rows B)"
    and "row_period r = Some q"
    and "Some q \<in> row_period ` set (rows A)"
  shows "fs' (org_data_path q) = Some (File (format_csv L (select_month B q))) \<and>
         columns (select_month B q) = columns B \<and>
         r \<in> set (rows (select_month B q)) \<and>
         count_list (rows (select_month B q)) r = count_list (rows B) r \<and>
         (\<forall>q'. q' \<noteq> q \<longrightarrow>
            org_data_path q' \<noteq> org_data_path q \<and> r \<notin> set (rows (select_month B q')))"
proof -
  note s = run_summary [OF assms(1,2)]
  from s(2) [OF assms(5)]
  have "fs' (org_data_path q) = Some (File (format_csv L (select_month B q)))" by simp
  moreover have "count_list (rows (select_month B q)) r = count_list (rows B) r"
    unfolding select_month_rows using assms(4) by (rule count_list_filter)
  moreover have "org_data_path q' \<noteq> org_data_path q \<and> r \<notin> set (rows (select_month B q'))"
    if "q' \<noteq> q" for q'
    using that assms(4) by (auto simp: select_month_rows dest: org_data_path_inj)
  ultimately show ?thesis
    using assms(3,4) by (auto simp: select_month_rows select_month_columns)
qed

theorem org_rows_inside_kept_witness:
  "load_tables mini scenario_fs = Inr (scenario_box, scenario_org) \<and>
   split_data_by_month mini scenario_fs = Inr scenario_out \<and>
   org_row1 \<in> set (rows scenario_org) \<and>
   row_period org_row1 = Some (2024, 1) \<and>
   Some (2024, 1) \<in> row_period ` set (rows scenario_box) \<and>
   scenario_out (org_data_path (2024, 1)) =
     Some (File (format_csv mini (select_month scenario_org (2024, 1)))) \<and>
   columns (select_month scenario_org (2024, 1)) = columns scenario_org \<and>
   org_row1 \<in> set (rows (select_month scenario_org (2024, 1))) \<and>
   count_list (rows (select_month scenario_org (2024, 1))) org_row1 =
     count_list (rows scenario_org) org_row1 \<and>
   org_data_path (2024, 2) \<noteq> org_data_path (2024, 1) \<and>
   org_row1 \<notin> set (rows (select_month scenario_org (2024, 2)))"
proof -
  have m: "org_row1 \<in> set (rows scenario_org)" by (simp add: scenario_org_def)
  have p: "row_period org_row1 = Some (2024, 1)" by (rule scenario_periods)
  have n: "Some (2024, 1) \<in> row_period ` set (rows scenario_box)"
    unfolding scenario_period_set by (rule insertI1)
  have d: "((2024, 2) :: period) \<noteq> (2024, 1)" by simp
  note t = org_rows_inside_kept [OF scenario_load scenario_run m p n]
  from t d have "org_data_path (2024, 2) \<noteq> org_data_path (2024, 1) \<and>
      org_row1 \<notin> set (rows (select_month scenario_org (2024, 2)))" by blast
  with t scenario_load scenario_run m p n show ?thesis by (intro conjI) blast+
qed

text \<open>
  C10, as stated, fails on the other columns. With the small pandas, the first table
  read from a file whose \<open>median\<close> field is the text \<open>007\<close> is written with the field
  \<open>7\<close>: the reader has made the column an integer column and the writer prints the
  integer. In the same file the date \<open>2024-01-05 00:00:00\<close> is written \<open>2024-01-05\<close>.
\<close>

theorem other_column_text_changed:
  "padded_fs box_plot_csv =
     Some (File ''execution_date,median\<newline>2024-01-05 00:00:00,007\<newline>'') \<and>
   split_data_by_month mini padded_fs = Inr padded_out \<and>
   padded_out ''public/monthly/box_plot_2024-01.csv'' =
     Some (File ''execution_date,median\<newline>2024-01-05,7\<newline>'')"
proof (intro conjI)
  show "padded_fs box_plot_csv =
     Some (File ''execution_date,median\<newline>2024-01-05 00:00:00,007\<newline>'')"
    by (simp add: padded_fs_def box_plot_csv_def)
  show "split_data_by_month mini padded_fs = Inr padded_out" by (rule padded_run)
  show "padded_out ''public/monthly/box_plot_2024-01.csv'' =
     Some (File ''execution_date,median\<newline>2024-01-05,7\<newline>'')"
    by (simp add: padded_out_def)
qed

text \<open>
  C10, amended. After a run that succeeds, what is handed to the CSV writer for each
  file is the month's selection of the table as loaded, where in every row the
  \<open>execution_date\<close> cell has been replaced by the Timestamp (or NaT) that the parser
  made of it, and every other cell is the value the CSV reader produced, unchanged.
  The text of a cell in the file is the writer's rendering of that value.
\<close>

theorem date_reserialized:
  assumes "read_csv L fs box_plot_csv = Inr A0"
    and "read_csv L fs org_data_csv = Inr B0"
    and "load_tables L fs = Inr (A, B)"
    and "split_data_by_month L fs = Inr fs'"
    and "Some q \<in> row_period ` set (rows A)"
  shows "fs' (box_plot_path q) = Some (File (format_csv L (select_month A q))) \<and>
         fs' (org_data_path q) = Some (File (format_csv L (select_month B q))) \<and>
         columns (select_month A q) = columns A0 \<and>
         columns (select_month B q) = columns B0 \<and>
         rows (select_month A q) =
           filter (\<lambda>r. row_period r = Some q)
             (map (\<lambda>r. set_cell ''execution_date'' (date_cell L (map_of r ''execution_date''))
                         (keep_raw r)) (rows A0)) \<and>
         rows (select_month B q) =
           filter (\<lambda>r. row_period r = Some q)
             (map (\<lambda>r. set_cell ''execution_date'' (date_cell L (map_of r ''execution_date''))
                         (keep_raw r)) (rows B0)) \<and>
         (\<forall>r k. map_of (set_cell ''execution_date'' (date_cell L (map_of r ''execution_date''))
                     (keep_raw r)) k =
                (if k = ''execution_date'' then Some (date_cell L (map_of r ''execution_date''))
                 else map_option Raw (map_of r k)))"
proof -
  from load_tables_Inr [OF assms(3)] assms(1,2)
  have a: "convert_dates L A0 = Inr A" and b: "convert_dates L B0 = Inr B" by auto
  note s = run_summary(2) [OF assms(3,4,5)]
  note ca = convert_dates_Inr(2,3) [OF a] and cb = convert_dates_Inr(2,3) [OF b]
  have cells: "map_of (set_cell ''execution_date'' v (keep_raw r)) k =
          (if k = ''execution_date'' then Some v else map_option Raw (map_of r k))"
    for v :: "'a cell" and r k
    by (simp add: map_of_set_cell map_of_keep_raw)
  show ?thesis
  proof (intro conjI allI)
    from s show "fs' (box_plot_path q) = Some (File (format_csv L (select_month A q)))"
      and "fs' (org_data_path q) = Some (File (format_csv L (select_month B q)))" by simp_all
    show "columns (select_month A q) = columns A0" by (simp only: select_month_columns ca(1))
    show "columns (select_month B q) = columns B0" by (simp only: select_month_columns cb(1))
    show "rows (select_month A q) =
           filter (\<lambda>r. row_period r = Some q)
             (map (\<lambda>r. set_cell ''execution_date'' (date_cell L (map_of r ''execution_date''))
                         (keep_raw r)) (rows A0))"
      by (simp only: select_month_rows ca(2))
    show "rows (select_month B q) =
           filter (\<lambda>r. row_period r = Some q)
             (map (\<lambda>r. set_cell ''execution_date'' (date_cell L (map_of r ''execution_date''))
                         (keep_raw r)) (rows B0))"
      by (simp only: select_month_rows cb(2))
    show "map_of (set_cell ''execution_date'' (date_cell L (map_of r ''execution_date''))
                     (keep_raw r)) k =
                (if k = ''execution_date'' then Some (date_cell L (map_of r ''execution_date''))
                 else map_option Raw (map_of r k))" for r k
      by (rule cells)
  qed
qed

theorem date_reserialized_witness:
  "read_csv mini padded_fs box_plot_csv = Inr padded_box_raw \<and>
   read_csv mini padded_fs org_data_csv = Inr padded_org_raw \<and>
   load_tables mini padded_fs = Inr (padded_box, padded_org) \<and>
   split_data_by_month mini padded_fs = Inr padded_out \<and>
   Some (2024, 1) \<in> row_period ` set (rows padded_box) \<and>
   padded_out (box_plot_path (2024, 1)) =
     Some (File (format_csv mini (select_month padded_box (2024, 1)))) \<and>
   padded_out (org_data_path (2024, 1)) =
     Some (File (format_csv mini (select_month padded_org (2024, 1)))) \<and>
   columns (select_month padded_box (2024, 1)) = columns padded_box_raw \<and>
   columns (select_month padded_org (2024, 1)) = columns padded_org_raw \<and>
   rows (select_month padded_box (2024, 1)) =
     filter (\<lambda>r. row_period r = Some (2024, 1))
       (map (\<lambda>r. set_cell ''execution_date'' (date_cell mini (map_of r ''execution_date''))
                   (keep_raw r)) (rows padded_box_raw)) \<and>
   rows (select_month padded_org (2024, 1)) =
     filter (\<lambda>r. row_period r = Some (2024, 1))
       (map (\<lambda>r. set_cell ''execution_date'' (date_cell mini (map_of r ''execution_date''))
                   (keep_raw r)) (rows padded_org_raw)) \<and>
   (\<forall>r k. map_of (set_cell ''execution_date'' (date_cell mini (map_of r ''execution_date''))
               (keep_raw r)) k =
          (if k = ''execution_date'' then Some (date_cell mini (map_of r ''execution_date''))
           else map_option Raw (map_of r k)))"
proof -
  have m: "Some (2024, 1) \<in> row_period ` set (rows padded_box)"
    unfolding padded_period_set by (rule insertI1)
  note t = date_reserialized [OF padded_reads padded_load padded_run m]
  note t1 = t [THEN conjunct1]
  note t2 = t [THEN conjunct2, THEN conjunct1]
  note t3 = t [THEN conjunct2, THEN conjunct2, THEN conjunct1]
  note t4 = t [THEN conjunct2, THEN conjunct2, THEN conjunct2, THEN conjunct1]
  note t5 = t [THEN conjunct2, THEN conjunct2, THEN conjunct2, THEN conjunct2, THEN conjunct1]
  note t6 = t [THEN conjunct2, THEN conjunct2, THEN conjunct2, THEN conjunct2, THEN conjunct2,
      THEN conjunct1]
  note t7 = t [THEN conjunct2, THEN conjunct2, THEN conjunct2, THEN conjunct2, THEN conjunct2,
      THEN conjunct2]
  from padded_reads padded_load padded_run m t1 t2 t3 t4 t5 t6 t7
  show ?thesis by (intro conjI)
qed

end
